theory Spec2Isabelle
  imports Complex_Main
begin

section \<open>The magnetization trajectory of \<open>bloch_improved.py\<close>\<close>

text \<open>
  The scene \<open>ImprovedBlochEquation\<close> animates the return of the magnetization vector to
  equilibrium. The part with content is the loop of \<open>show_relaxation_enhanced\<close>: it
  computes one position and one time per step, shows them (the arrow is redrawn, the
  parameter display is updated) and, after the loop, shows the equilibrium vector itself.
  The model keeps the numbers that are shown, in the order in which they are shown, and
  leaves the rendering out.
\<close>

subsection \<open>Python floats\<close>

text \<open>
  A Python float is a binary64 number: its value is a real number, and every arithmetic
  operation returns the exact result rounded to a representable number. The model keeps
  the values as reals and takes the rounding as a parameter \<open>fl\<close>, applied after every
  operation and to every decimal literal of the source. The rounding of the interpreter
  is \<open>binary64\<close>: round to nearest with ties to even on 53 significant bits. Overflow to
  infinity is left out: no value of the program comes near it. The other instance that
  appears is \<open>exact\<close>, which rounds nothing; it is the arithmetic of the real numbers and
  serves only where a property is stated for the ideal numbers.
\<close>

type_synonym rounding = "real \<Rightarrow> real"

definition exact :: rounding where
  "exact x = x"

lemma ceiling_half_less: "1 < (y::real) \<Longrightarrow> \<lceil>y / 2\<rceil> < \<lceil>y\<rceil>"
proof -
  assume y: "1 < y"
  then have n: "2 \<le> \<lceil>y\<rceil>" by linarith
  have "y \<le> of_int \<lceil>y\<rceil>" by (rule le_of_int_ceiling)
  then have "y / 2 \<le> of_int \<lceil>y\<rceil> / 2" by simp
  also have "\<dots> \<le> of_int (\<lceil>y\<rceil> - 1)" using n by simp
  finally have "\<lceil>y / 2\<rceil> \<le> \<lceil>y\<rceil> - 1" by (rule ceiling_le)
  then show ?thesis by simp
qed

text \<open>
  The spacing of the binary64 numbers around \<open>x\<close> is \<open>2 ^ e / 2 ^ 52\<close> where
  \<open>2 ^ e \<le> x < 2 ^ (e + 1)\<close>. It is found by halving (for \<open>1 \<le> x\<close>) or by doubling
  (for \<open>0 < x < 1\<close>), and is never below \<open>1 / 2 ^ 1074\<close>, the spacing of the subnormal
  numbers.
\<close>

function quantum_up :: "real \<Rightarrow> real" where
  "quantum_up x = (if x < 2 then 1 / 2 ^ 52 else 2 * quantum_up (x / 2))"
  by pat_completeness auto
termination
proof (relation "measure (\<lambda>x. nat \<lceil>x\<rceil>)")
  show "wf (measure (\<lambda>x::real. nat \<lceil>x\<rceil>))" by simp
next
  fix x :: real
  assume "\<not> x < 2"
  then have "1 < x" by simp
  then have "\<lceil>x / 2\<rceil> < \<lceil>x\<rceil>" by (rule ceiling_half_less)
  moreover have "0 < \<lceil>x\<rceil>" using \<open>1 < x\<close> by linarith
  ultimately show "(x / 2, x) \<in> measure (\<lambda>x. nat \<lceil>x\<rceil>)" by simp
qed

function quantum_down :: "real \<Rightarrow> real" where
  "quantum_down x = (if x \<le> 0 \<or> 1 \<le> x then 1 / 2 ^ 52 else quantum_down (2 * x) / 2)"
  by pat_completeness auto
termination
proof (relation "measure (\<lambda>x. nat \<lceil>1 / x\<rceil>)")
  show "wf (measure (\<lambda>x::real. nat \<lceil>1 / x\<rceil>))" by simp
next
  fix x :: real
  assume "\<not> (x \<le> 0 \<or> 1 \<le> x)"
  then have x: "0 < x" "x < 1" by simp_all
  then have y: "1 < 1 / x" by simp
  then have "\<lceil>(1 / x) / 2\<rceil> < \<lceil>1 / x\<rceil>" by (rule ceiling_half_less)
  moreover have "1 / (2 * x) = (1 / x) / 2" by simp
  moreover have "0 < \<lceil>1 / x\<rceil>" using y by linarith
  ultimately show "(2 * x, x) \<in> measure (\<lambda>x. nat \<lceil>1 / x\<rceil>)"
    by (simp only: in_measure zless_nat_conj)
qed

definition quantum :: "real \<Rightarrow> real" where
  "quantum a = max (1 / 2 ^ 1074) (if 1 \<le> a then quantum_up a else quantum_down a)"

definition round_half_even :: "real \<Rightarrow> int" where
  "round_half_even y =
     (let f = \<lfloor>y\<rfloor>; r = y - of_int f
      in if r < 1 / 2 then f else if 1 / 2 < r then f + 1 else if even f then f else f + 1)"

definition binary64 :: rounding where
  "binary64 x = (let q = quantum \<bar>x\<bar> in sgn x * (of_int (round_half_even (\<bar>x\<bar> / q)) * q))"

subsection \<open>Errors, vectors and the operations of the interpreter\<close>

datatype py_error = ZeroDivisionError

type_synonym vec3 = "real \<times> real \<times> real"

text \<open>A sample is what one step shows: the end point of the arrow and the time.\<close>

type_synonym sample = "vec3 \<times> real"

text \<open>\<open>a / b\<close> on floats raises \<open>ZeroDivisionError\<close> when \<open>b\<close> is zero.\<close>

definition py_truediv :: "rounding \<Rightarrow> real \<Rightarrow> real \<Rightarrow> py_error + real" where
  "py_truediv fl a b = (if b = 0 then Inl ZeroDivisionError else Inr (fl (a / b)))"

text \<open>\<open>int(x)\<close> on a float drops the fractional part: it rounds towards zero.\<close>

definition py_int :: "real \<Rightarrow> int" where
  "py_int x = (if 0 \<le> x then \<lfloor>x\<rfloor> else \<lceil>x\<rceil>)"

text \<open>A number times an array, and the sum of two arrays, element by element.\<close>

definition np_scale :: "rounding \<Rightarrow> real \<Rightarrow> vec3 \<Rightarrow> vec3" where
  "np_scale fl c v = (case v of (x, y, z) \<Rightarrow> (fl (c * x), fl (c * y), fl (c * z)))"

definition np_add :: "rounding \<Rightarrow> vec3 \<Rightarrow> vec3 \<Rightarrow> vec3" where
  "np_add fl u v =
     (case u of (a, b, c) \<Rightarrow> case v of (x, y, z) \<Rightarrow> (fl (a + x), fl (b + y), fl (c + z)))"

subsection \<open>The scene\<close>

text \<open>
  The attributes of the scene that the trajectory reads. \<open>construct\<close> sets the first
  seven; \<open>demonstrate_bloch_physics\<close> adds \<open>equilibrium_end\<close>.
\<close>

record scene =
  testing_mode :: bool
  gamma :: real
  B0 :: real
  T1 :: real
  T2 :: real
  M0 :: real
  omega_0 :: real

record relaxing_scene = scene +
  equilibrium_end :: vec3

definition construct :: "rounding \<Rightarrow> scene" where
  "construct fl =
     \<lparr>testing_mode = True,
      gamma = fl 267500000,
      B0 = fl (15 / 10),
      T1 = fl 1,
      T2 = fl (1 / 10),
      M0 = fl 1,
      omega_0 = fl (fl 267500000 * fl (15 / 10))\<rparr>"

text \<open>The constant \<open>DEGREES\<close> of the animation library is \<open>TAU / 360\<close>, with \<open>TAU = 2 * PI\<close>.\<close>

definition DEGREES :: "rounding \<Rightarrow> real" where
  "DEGREES fl = fl (fl (2 * fl pi) / 360)"

subsection \<open>The relaxation loop\<close>

text \<open>
  One iteration of the loop of \<open>show_relaxation_enhanced\<close>, for the loop index \<open>i\<close>.
  The source fixes \<open>total_time\<close>, \<open>dt\<close> and \<open>start_pos\<close>; here they are arguments, so
  that the loop can be studied for every duration, step and starting vector.
  \<open>decay_t2\<close>, \<open>M_transverse_t\<close> and \<open>Mz_t\<close> are computed as in the source, which never
  reads them again; the two divisions by \<open>T2\<close> and \<open>T1\<close> can still raise.
\<close>

definition relaxation_step ::
  "rounding \<Rightarrow> relaxing_scene \<Rightarrow> vec3 \<Rightarrow> real \<Rightarrow> real \<Rightarrow> nat \<Rightarrow> py_error + sample" where
  "relaxation_step fl sc start_pos total_time dt i =
     (let initial_M_transverse = (0, M0 sc, 0);
          t = fl (real (i + 1) * dt)
      in case py_truediv fl (- t) (T2 sc) of
           Inl e \<Rightarrow> Inl e
         | Inr q2 \<Rightarrow>
             let decay_t2 = fl (exp q2);
                 M_transverse_t = np_scale fl decay_t2 initial_M_transverse;
                 Mz_equilibrium = snd (snd (equilibrium_end sc))
             in case py_truediv fl (- t) (T1 sc) of
                  Inl e \<Rightarrow> Inl e
                | Inr q1 \<Rightarrow>
                    let Mz_t = fl (Mz_equilibrium * fl (1 - fl (exp q1)));
                        final_pos = equilibrium_end sc
                    in case py_truediv fl t total_time of
                         Inl e \<Rightarrow> Inl e
                       | Inr alpha \<Rightarrow>
                           let current_pos =
                                 np_add fl (np_scale fl (fl (1 - alpha)) start_pos)
                                           (np_scale fl alpha final_pos)
                           in Inr (current_pos, t))"

text \<open>
  \<open>for i in range(steps)\<close>: the iterations from index \<open>i\<close> on, \<open>n\<close> of them left. An
  error ends the loop.
\<close>

fun relaxation_loop ::
  "rounding \<Rightarrow> relaxing_scene \<Rightarrow> vec3 \<Rightarrow> real \<Rightarrow> real \<Rightarrow> nat \<Rightarrow> nat \<Rightarrow> py_error + sample list"
where
  "relaxation_loop fl sc start_pos total_time dt i 0 = Inr []"
| "relaxation_loop fl sc start_pos total_time dt i (Suc n) =
     (case relaxation_step fl sc start_pos total_time dt i of
        Inl e \<Rightarrow> Inl e
      | Inr s \<Rightarrow>
          (case relaxation_loop fl sc start_pos total_time dt (Suc i) n of
             Inl e \<Rightarrow> Inl e
           | Inr ss \<Rightarrow> Inr (s # ss)))"

text \<open>
  The samples of one relaxation: \<open>steps = int(total_time / dt)\<close> iterations of the loop
  (none when \<open>steps\<close> is not positive), then the final state, shown with the equilibrium
  vector and \<open>total_time\<close>.
\<close>

definition relaxation_samples ::
  "rounding \<Rightarrow> relaxing_scene \<Rightarrow> vec3 \<Rightarrow> real \<Rightarrow> real \<Rightarrow> py_error + sample list" where
  "relaxation_samples fl sc start_pos total_time dt =
     (case py_truediv fl total_time dt of
        Inl e \<Rightarrow> Inl e
      | Inr q \<Rightarrow>
          let steps = py_int q
          in (case relaxation_loop fl sc start_pos total_time dt 0 (nat steps) of
                Inl e \<Rightarrow> Inl e
              | Inr shown \<Rightarrow> Inr (shown @ [(equilibrium_end sc, total_time)])))"

text \<open>The method as the source has it: the duration by the mode, the step 0.05, the start \<open>[0, M0, 0]\<close>.\<close>

definition show_relaxation_enhanced :: "rounding \<Rightarrow> relaxing_scene \<Rightarrow> py_error + sample list" where
  "show_relaxation_enhanced fl sc =
     (let total_time = (if testing_mode sc then fl (3 / 10) else fl (15 / 10));
          dt = fl (5 / 100)
      in relaxation_samples fl sc (0, M0 sc, 0) total_time dt)"

text \<open>\<open>apply_rf_pulse_enhanced\<close> creates the parameter display with \<open>(0.0, M0, 0.0)\<close> at time \<open>0.0\<close>.\<close>

definition apply_rf_pulse_enhanced :: "relaxing_scene \<Rightarrow> sample list" where
  "apply_rf_pulse_enhanced sc = [((0, M0 sc, 0), 0)]"

text \<open>
  \<open>demonstrate_bloch_physics\<close>: the only assignment to \<open>equilibrium_end\<close> of the whole
  file, then the pulse and the relaxation. It returns the scene as the run leaves it and
  everything that was shown.
\<close>

definition demonstrate_bloch_physics ::
  "rounding \<Rightarrow> scene \<Rightarrow> py_error + relaxing_scene \<times> sample list" where
  "demonstrate_bloch_physics fl sc0 =
     (let initial_tilt = fl (15 * DEGREES fl);
          equilibrium_end =
            (fl (fl (2 / 10) * fl (sin initial_tilt)), 0, fl (M0 sc0 * fl (cos initial_tilt)));
          sc = scene.extend sc0 (relaxing_scene.fields equilibrium_end);
          pulse = apply_rf_pulse_enhanced sc
      in case show_relaxation_enhanced fl sc of
           Inl e \<Rightarrow> Inl e
         | Inr relaxation \<Rightarrow> Inr (sc, pulse @ relaxation))"

subsection \<open>What one iteration computes\<close>

text \<open>
  The iteration with the loop index \<open>i - 1\<close> computes the time \<open>t = i * dt\<close>, the fraction
  \<open>alpha = t / total_time\<close> and the position
  \<open>(1 - alpha) * start_pos + alpha * final_pos\<close>, each operation rounded. The functions
  below name these values for the step \<open>i\<close> counted from 1; \<open>loop_steps\<close> is the number of
  iterations, \<open>int(total_time / dt)\<close>. That the loop returns exactly these values is proved
  below (\<open>relaxation_samples_value\<close>).
\<close>

definition step_time :: "rounding \<Rightarrow> real \<Rightarrow> nat \<Rightarrow> real" where
  "step_time fl dt i = fl (real i * dt)"

definition step_alpha :: "rounding \<Rightarrow> real \<Rightarrow> real \<Rightarrow> nat \<Rightarrow> real" where
  "step_alpha fl total_time dt i = fl (step_time fl dt i / total_time)"

definition step_position :: "rounding \<Rightarrow> real \<Rightarrow> vec3 \<Rightarrow> vec3 \<Rightarrow> vec3" where
  "step_position fl alpha start_pos final_pos =
     (case start_pos of (a, b, c) \<Rightarrow> case final_pos of (x, y, z) \<Rightarrow>
        (fl (fl (fl (1 - alpha) * a) + fl (alpha * x)),
         fl (fl (fl (1 - alpha) * b) + fl (alpha * y)),
         fl (fl (fl (1 - alpha) * c) + fl (alpha * z))))"

definition step_sample :: "rounding \<Rightarrow> vec3 \<Rightarrow> vec3 \<Rightarrow> real \<Rightarrow> real \<Rightarrow> nat \<Rightarrow> sample" where
  "step_sample fl start_pos final_pos total_time dt i =
     (step_position fl (step_alpha fl total_time dt i) start_pos final_pos, step_time fl dt i)"

definition loop_steps :: "rounding \<Rightarrow> real \<Rightarrow> real \<Rightarrow> nat" where
  "loop_steps fl total_time dt = nat (py_int (fl (total_time / dt)))"

subsection \<open>The specification\<close>

text \<open>
  The specification counts the steps of the loop as \<open>floor (totalDuration / stepSize)\<close>, a
  quotient of real numbers.
\<close>

definition spec_stepCount :: "real \<Rightarrow> real \<Rightarrow> nat" where
  "spec_stepCount totalDuration stepSize = nat \<lfloor>totalDuration / stepSize\<rfloor>"

text \<open>
  The scene of the worked examples of the specification: the attributes that \<open>construct\<close>
  sets, and the end vector \<open>(0.052, 0, 0.966)\<close>.
\<close>

definition example_scene :: "rounding \<Rightarrow> relaxing_scene" where
  "example_scene fl =
     scene.extend (construct fl) (relaxing_scene.fields (fl (52 / 1000), 0, fl (966 / 1000)))"

text \<open>
  A coordinate moves monotonically from \<open>a\<close> to \<open>b\<close> along the list \<open>cs\<close>: the values
  never turn back and stay between the two.
\<close>

definition moves_monotonically :: "real \<Rightarrow> real \<Rightarrow> real list \<Rightarrow> bool" where
  "moves_monotonically a b cs =
     (if a \<le> b then sorted cs \<and> list_all (\<lambda>c. a \<le> c \<and> c \<le> b) cs
      else sorted (rev cs) \<and> list_all (\<lambda>c. b \<le> c \<and> c \<le> a) cs)"

text \<open>
  What the order properties of the trajectory need of an arithmetic: rounding keeps the
  order of its arguments, and 0 and 1 are numbers of the arithmetic.
\<close>

definition monotone_rounding :: "rounding \<Rightarrow> bool" where
  "monotone_rounding fl \<longleftrightarrow> (\<forall>x y. x \<le> y \<longrightarrow> fl x \<le> fl y) \<and> fl 0 = 0 \<and> fl 1 = 1"

section \<open>The loop in closed form\<close>

lemma nat_py_int: "nat (py_int x) = nat \<lfloor>x\<rfloor>"
proof (cases "0 \<le> x")
  case True
  then show ?thesis by (simp add: py_int_def)
next
  case False
  then have "\<lceil>x\<rceil> \<le> 0" "\<lfloor>x\<rfloor> \<le> 0" by (simp_all add: ceiling_le_iff floor_le_iff)
  then show ?thesis using False by (simp add: py_int_def)
qed

lemma relaxation_step_value:
  assumes "T1 sc \<noteq> 0" and "T2 sc \<noteq> 0" and "total_time \<noteq> 0"
  shows "relaxation_step fl sc start_pos total_time dt i =
           Inr (step_sample fl start_pos (equilibrium_end sc) total_time dt (Suc i))"
  using assms
  by (cases start_pos; cases "equilibrium_end sc")
     (simp add: relaxation_step_def py_truediv_def Let_def np_add_def np_scale_def
        step_sample_def step_position_def step_alpha_def step_time_def)

lemma relaxation_loop_value:
  assumes "T1 sc \<noteq> 0" and "T2 sc \<noteq> 0" and "total_time \<noteq> 0"
  shows "relaxation_loop fl sc start_pos total_time dt i n =
           Inr (map (step_sample fl start_pos (equilibrium_end sc) total_time dt)
                  [Suc i..<Suc (i + n)])"
proof (induction n arbitrary: i)
  case 0
  show ?case by simp
next
  case (Suc n)
  have "[Suc i..<Suc (i + Suc n)] = Suc i # [Suc (Suc i)..<Suc (Suc i + n)]"
    by (simp add: upt_rec)
  then show ?case
    by (simp add: relaxation_step_value [OF assms] Suc.IH)
qed

lemma relaxation_samples_value:
  assumes "T1 sc \<noteq> 0" and "T2 sc \<noteq> 0" and "total_time \<noteq> 0" and "dt \<noteq> 0"
  shows "relaxation_samples fl sc start_pos total_time dt =
           Inr (map (step_sample fl start_pos (equilibrium_end sc) total_time dt)
                  [1..<Suc (loop_steps fl total_time dt)]
                @ [(equilibrium_end sc, total_time)])"
  using assms(4)
  by (simp add: relaxation_samples_def py_truediv_def Let_def loop_steps_def
      relaxation_loop_value [OF assms(1-3)])

lemma loop_steps_floor: "loop_steps fl total_time dt = nat \<lfloor>fl (total_time / dt)\<rfloor>"
  by (simp only: loop_steps_def nat_py_int)

lemma snd_step_sample: "snd (step_sample fl start_pos final_pos total_time dt i) = step_time fl dt i"
  by (simp add: step_sample_def)

lemma times_of_steps:
  "map snd (map (step_sample fl start_pos final_pos total_time dt) is) = map (step_time fl dt) is"
  by (simp add: step_sample_def)

text \<open>The two divisions by \<open>T1\<close> and \<open>T2\<close> only have to succeed: their results are not used.\<close>

lemma relaxation_step_T1_T2:
  assumes "T1 sc \<noteq> 0" and "T2 sc \<noteq> 0" and "a \<noteq> 0" and "b \<noteq> 0"
  shows "relaxation_step fl (sc\<lparr>T1 := a, T2 := b\<rparr>) start_pos total_time dt i =
         relaxation_step fl sc start_pos total_time dt i"
  using assms by (simp add: relaxation_step_def py_truediv_def Let_def)

lemma relaxation_loop_T1_T2:
  assumes "T1 sc \<noteq> 0" and "T2 sc \<noteq> 0" and "a \<noteq> 0" and "b \<noteq> 0"
  shows "relaxation_loop fl (sc\<lparr>T1 := a, T2 := b\<rparr>) start_pos total_time dt i n =
         relaxation_loop fl sc start_pos total_time dt i n"
  by (induction n arbitrary: i)
     (simp_all add: relaxation_step_T1_T2 [OF assms] cong: sum.case_cong)

subsection \<open>Without rounding\<close>

lemma step_time_exact: "step_time exact dt i = real i * dt"
  by (simp add: step_time_def exact_def)

lemma loop_steps_exact: "loop_steps exact total_time dt = nat \<lfloor>total_time / dt\<rfloor>"
  by (simp add: loop_steps_floor exact_def)

lemma example_scene_exact:
  "T1 (example_scene exact) = 1" "T2 (example_scene exact) = 1 / 10"
  "M0 (example_scene exact) = 1" "testing_mode (example_scene exact)"
  "equilibrium_end (example_scene exact) = (52 / 1000, 0, 966 / 1000)"
  by (simp_all add: example_scene_def construct_def exact_def scene.defs relaxing_scene.defs)

text \<open>The whole run over the reals: the equilibrium vector that is stored, and where the relaxation ends.\<close>

lemma DEGREES_exact: "DEGREES exact = 2 * pi / 360"
  by (simp add: DEGREES_def exact_def)

lemma sin_initial_tilt_pos: "0 < sin (15 * (2 * pi / 360))"
  by (intro sin_gt_zero) simp_all

lemma construct_exact:
  "T1 (construct exact) = 1" "T2 (construct exact) = 1 / 10"
  "M0 (construct exact) = 1" "testing_mode (construct exact)"
  by (simp_all add: construct_def exact_def)

lemma show_relaxation_enhanced_exact:
  assumes "0 < T1 sc" and "0 < T2 sc"
  shows "\<exists>loop. show_relaxation_enhanced exact sc =
           Inr (loop @ [(equilibrium_end sc, if testing_mode sc then 3 / 10 else 15 / 10)])"
proof (cases "testing_mode sc")
  case True
  have "relaxation_samples exact sc (0, M0 sc, 0) (3 / 10) (5 / 100) =
        Inr (map (step_sample exact (0, M0 sc, 0) (equilibrium_end sc) (3 / 10) (5 / 100))
               [1..<Suc (loop_steps exact (3 / 10) (5 / 100))]
             @ [(equilibrium_end sc, 3 / 10)])"
    using assms by (intro relaxation_samples_value) simp_all
  then have "show_relaxation_enhanced exact sc =
        Inr (map (step_sample exact (0, M0 sc, 0) (equilibrium_end sc) (3 / 10) (5 / 100))
               [1..<Suc (loop_steps exact (3 / 10) (5 / 100))]
             @ [(equilibrium_end sc, if testing_mode sc then 3 / 10 else 15 / 10)])"
    using True by (simp add: show_relaxation_enhanced_def exact_def)
  then show ?thesis ..
next
  case False
  have "relaxation_samples exact sc (0, M0 sc, 0) (15 / 10) (5 / 100) =
        Inr (map (step_sample exact (0, M0 sc, 0) (equilibrium_end sc) (15 / 10) (5 / 100))
               [1..<Suc (loop_steps exact (15 / 10) (5 / 100))]
             @ [(equilibrium_end sc, 15 / 10)])"
    using assms by (intro relaxation_samples_value) simp_all
  then have "show_relaxation_enhanced exact sc =
        Inr (map (step_sample exact (0, M0 sc, 0) (equilibrium_end sc) (15 / 10) (5 / 100))
               [1..<Suc (loop_steps exact (15 / 10) (5 / 100))]
             @ [(equilibrium_end sc, if testing_mode sc then 3 / 10 else 15 / 10)])"
    using False by (simp add: show_relaxation_enhanced_def exact_def)
  then show ?thesis ..
qed

lemma demonstrate_bloch_physics_exact:
  assumes "0 < T1 sc0" and "0 < T2 sc0"
  shows "\<exists>sc shown. demonstrate_bloch_physics exact sc0 = Inr (sc, shown)
           \<and> equilibrium_end sc =
               (2 / 10 * sin (15 * DEGREES exact), 0, M0 sc0 * cos (15 * DEGREES exact))
           \<and> M0 sc = M0 sc0
           \<and> shown \<noteq> [] \<and> fst (last shown) = equilibrium_end sc"
proof -
  define sc where "sc = scene.extend sc0 (relaxing_scene.fields
      (2 / 10 * sin (15 * DEGREES exact), 0, M0 sc0 * cos (15 * DEGREES exact)))"
  have fields: "T1 sc = T1 sc0" "T2 sc = T2 sc0" "M0 sc = M0 sc0"
    "equilibrium_end sc = (2 / 10 * sin (15 * DEGREES exact), 0, M0 sc0 * cos (15 * DEGREES exact))"
    by (simp_all add: sc_def scene.defs relaxing_scene.defs)
  obtain loop where loop: "show_relaxation_enhanced exact sc =
      Inr (loop @ [(equilibrium_end sc, if testing_mode sc then 3 / 10 else 15 / 10)])"
    using show_relaxation_enhanced_exact [of sc] assms fields(1,2) by auto
  have "demonstrate_bloch_physics exact sc0 =
      (case show_relaxation_enhanced exact sc of
         Inl e \<Rightarrow> Inl e
       | Inr relaxation \<Rightarrow> Inr (sc, apply_rf_pulse_enhanced sc @ relaxation))"
    by (simp add: demonstrate_bloch_physics_def Let_def exact_def sc_def cong: sum.case_cong)
  then have "demonstrate_bloch_physics exact sc0 =
      Inr (sc, apply_rf_pulse_enhanced sc @ loop
               @ [(equilibrium_end sc, if testing_mode sc then 3 / 10 else 15 / 10)])"
    by (simp only: loop sum.case)
  then show ?thesis
    using fields(3,4)
    by (intro exI [of _ sc] exI [of _ "apply_rf_pulse_enhanced sc @ loop
               @ [(equilibrium_end sc, if testing_mode sc then 3 / 10 else 15 / 10)]"]) simp
qed

section \<open>The arithmetic of the interpreter\<close>

text \<open>
  Where a value lies between two consecutive powers of two, \<open>binary64\<close> rounds its
  quotient by the spacing there. The two lemmas turn this into a calculation on
  numerals.
\<close>

lemma quantum_up_range:
  "2 ^ k \<le> x \<Longrightarrow> x < 2 ^ Suc k \<Longrightarrow> quantum_up x = 2 ^ k / 2 ^ 52"
proof (induction k arbitrary: x)
  case 0
  then show ?case by (subst quantum_up.simps) simp
next
  case (Suc k)
  have "(2::real) \<le> 2 * 2 ^ k" by simp
  also have "\<dots> \<le> x" using Suc.prems(1) by simp
  finally have "\<not> x < 2" by simp
  moreover have "quantum_up (x / 2) = 2 ^ k / 2 ^ 52"
    using Suc.prems by (intro Suc.IH) simp_all
  ultimately show ?case by (subst quantum_up.simps) simp
qed

lemma quantum_down_range:
  "1 / 2 ^ Suc k \<le> x \<Longrightarrow> x < 1 / 2 ^ k \<Longrightarrow> quantum_down x = 1 / 2 ^ Suc k / 2 ^ 52"
proof (induction k arbitrary: x)
  case 0
  then have x: "0 < x" "x < 1" "1 \<le> 2 * x" by simp_all
  have "quantum_down (2 * x) = 1 / 2 ^ 52"
    using x(3) by (subst quantum_down.simps) simp
  then show ?case
    using x(1,2) by (subst quantum_down.simps) simp
next
  case (Suc k)
  have "(0::real) < 1 / 2 ^ Suc (Suc k)" by simp
  also have "\<dots> \<le> x" by fact
  finally have pos: "0 < x" .
  have "x < 1 / 2 ^ Suc k" by fact
  also have "\<dots> \<le> 1"
    using one_le_power [of "2::real" "Suc k"] by (subst divide_le_eq_1_pos) simp_all
  finally have lt: "x < 1" .
  have "quantum_down (2 * x) = 1 / 2 ^ Suc k / 2 ^ 52"
    using Suc.prems by (intro Suc.IH) (simp_all add: field_simps)
  then show ?case using pos lt by (subst quantum_down.simps) simp
qed

lemma subnormal_spacing_le: "n \<le> 1074 \<Longrightarrow> (1::real) / 2 ^ 1074 \<le> 1 / 2 ^ n"
  by (rule divide_left_mono) (simp_all only: power_increasing one_le_numeral zero_le_one
      zero_less_power zero_less_numeral mult_pos_pos)

lemma rescale_reciprocal: "(c::real) \<noteq> 0 \<Longrightarrow> 1 / b = c * (1 / (b * c))"
  by simp

lemma below_subnormal_spacing: "1074 \<le> n \<Longrightarrow> (1::real) / 2 ^ n \<le> 1 / 2 ^ 1074"
  by (rule divide_left_mono) (simp_all only: power_increasing one_le_numeral zero_le_one
      zero_less_power zero_less_numeral mult_pos_pos)

lemma pow_1074: "(2::real) ^ 1074 = 2 ^ 1022 * 2 ^ 52"
proof -
  have "(1022::nat) + 52 = 1074" by simp
  then show ?thesis by (simp only: power_add [symmetric])
qed

lemma pow_1074_split: "k \<le> 1021 \<Longrightarrow> (2::real) ^ 1074 = 2 ^ (1021 - k) * (2 ^ Suc k * 2 ^ 52)"
proof -
  assume "k \<le> 1021"
  then have "(1021 - k) + (Suc k + 52) = 1074" by simp
  then show ?thesis by (simp only: power_add [symmetric])
qed

text \<open>The spacing around a value between two consecutive powers of two.\<close>

lemma quantum_normal_up:
  assumes "2 ^ k \<le> x" and "x < 2 ^ Suc k"
  shows "quantum x = 2 ^ k / 2 ^ 52"
proof -
  have "(1::real) \<le> 2 ^ k" by simp
  then have x: "1 \<le> x" using assms(1) by linarith
  have "(1::real) / 2 ^ 1074 \<le> 1 / 2 ^ 52" by (rule subnormal_spacing_le) simp
  also have "\<dots> \<le> 2 ^ k / 2 ^ 52" by (rule divide_right_mono) simp_all
  finally have le: "(1::real) / 2 ^ 1074 \<le> 2 ^ k / 2 ^ 52" .
  have "quantum x = max (1 / 2 ^ 1074) (quantum_up x)"
    using x by (simp only: quantum_def if_True)
  also have "\<dots> = max (1 / 2 ^ 1074) (2 ^ k / 2 ^ 52)"
    by (simp only: quantum_up_range [OF assms(1,2)])
  also have "\<dots> = 2 ^ k / 2 ^ 52" using le by (rule max_absorb2)
  finally show ?thesis .
qed

lemma below_one:
  assumes "x < 1 / 2 ^ k"
  shows "\<not> 1 \<le> (x::real)"
proof -
  have "(1::real) \<le> 2 ^ k" by simp
  then have "(1::real) / 2 ^ k \<le> 1" by (simp only: divide_le_eq_1_pos zero_less_power zero_less_numeral)
  then show ?thesis using assms by linarith
qed

lemma quantum_normal_down:
  assumes "1 / 2 ^ Suc k \<le> x" and "x < 1 / 2 ^ k" and "k \<le> 1021"
  shows "quantum x = 1 / 2 ^ Suc k / 2 ^ 52"
proof -
  have lt: "\<not> 1 \<le> x" using assms(2) by (rule below_one)
  have "Suc k + 52 \<le> 1074" using assms(3) by simp
  then have "(1::real) / 2 ^ 1074 \<le> 1 / 2 ^ (Suc k + 52)" by (rule subnormal_spacing_le)
  also have "\<dots> = 1 / 2 ^ Suc k / 2 ^ 52" by (simp only: power_add divide_divide_eq_left)
  finally have le: "(1::real) / 2 ^ 1074 \<le> 1 / 2 ^ Suc k / 2 ^ 52" .
  have "quantum x = max (1 / 2 ^ 1074) (quantum_down x)"
    using lt by (simp only: quantum_def if_False)
  also have "\<dots> = max (1 / 2 ^ 1074) (1 / 2 ^ Suc k / 2 ^ 52)"
    by (simp only: quantum_down_range [OF assms(1,2)])
  also have "\<dots> = 1 / 2 ^ Suc k / 2 ^ 52" using le by (rule max_absorb2)
  finally show ?thesis .
qed

lemma quantum_subnormal:
  assumes "1 / 2 ^ Suc k \<le> x" and "x < 1 / 2 ^ k" and "1021 < k"
  shows "quantum x = 1 / 2 ^ 1074"
proof -
  have lt: "\<not> 1 \<le> x" using assms(2) by (rule below_one)
  have "1074 \<le> Suc k + 52" using assms(3) by simp
  then have "(1::real) / 2 ^ (Suc k + 52) \<le> 1 / 2 ^ 1074" by (rule below_subnormal_spacing)
  moreover have "(1::real) / 2 ^ (Suc k + 52) = 1 / 2 ^ Suc k / 2 ^ 52"
    by (simp only: power_add divide_divide_eq_left)
  ultimately have le: "(1::real) / 2 ^ Suc k / 2 ^ 52 \<le> 1 / 2 ^ 1074" by (simp only:)
  have "quantum x = max (1 / 2 ^ 1074) (quantum_down x)"
    using lt by (simp only: quantum_def if_False)
  also have "\<dots> = max (1 / 2 ^ 1074) (1 / 2 ^ Suc k / 2 ^ 52)"
    by (simp only: quantum_down_range [OF assms(1,2)])
  also have "\<dots> = 1 / 2 ^ 1074" using le by (rule max_absorb1)
  finally show ?thesis .
qed

lemma quantum_positive: "0 < quantum a"
proof -
  have "(0::real) < 1 / 2 ^ 1074" by simp
  then show ?thesis by (simp only: quantum_def less_max_iff_disj simp_thms)
qed

lemma binary64_positive:
  assumes "0 < x" and "quantum x = q"
  shows "binary64 x = of_int (round_half_even (x / q)) * q"
proof -
  have "\<bar>x\<bar> = x" "sgn x = 1" using assms(1) by simp_all
  then show ?thesis by (simp only: binary64_def Let_def assms(2) mult_1)
qed

lemma binary64_eval_up:
  assumes "2 ^ k \<le> x" and "x < 2 ^ Suc k" and "round_half_even (x / (2 ^ k / 2 ^ 52)) = m"
  shows "binary64 x = of_int m * (2 ^ k / 2 ^ 52)"
proof -
  have "(1::real) \<le> 2 ^ k" by simp
  then have "0 < x" using assms(1) by linarith
  moreover have "quantum x = 2 ^ k / 2 ^ 52" using assms(1,2) by (rule quantum_normal_up)
  ultimately show ?thesis by (simp only: binary64_positive assms(3))
qed

lemma binary64_eval_down:
  assumes "1 / 2 ^ Suc k \<le> x" and "x < 1 / 2 ^ k" and "k \<le> 1021"
    and "round_half_even (x / (1 / 2 ^ Suc k / 2 ^ 52)) = m"
  shows "binary64 x = of_int m * (1 / 2 ^ Suc k / 2 ^ 52)"
proof -
  have "(0::real) < 1 / 2 ^ Suc k" by simp
  then have "0 < x" using assms(1) by linarith
  moreover have "quantum x = 1 / 2 ^ Suc k / 2 ^ 52" using assms(1-3) by (rule quantum_normal_down)
  ultimately show ?thesis by (simp only: binary64_positive assms(4))
qed

lemma binary64_zero: "binary64 0 = 0"
  by (simp add: binary64_def)

lemma binary64_uminus: "binary64 (- x) = - binary64 x"
  by (simp add: binary64_def Let_def)

subsection \<open>Rounding keeps the order\<close>

text \<open>
  \<open>binary64\<close> is monotone. Two values with the same spacing are rounded on the same grid;
  if the spacings differ, the power of two at which the larger spacing begins lies
  between the two rounded values.
\<close>

lemma round_half_even_of_int: "round_half_even (of_int n) = n"
  by (simp add: round_half_even_def)

lemma round_half_even_bounds:
  "\<lfloor>y\<rfloor> \<le> round_half_even y" "round_half_even y \<le> \<lfloor>y\<rfloor> + 1"
  by (simp_all add: round_half_even_def Let_def)

lemma round_half_even_mono:
  assumes "y \<le> y'"
  shows "round_half_even y \<le> round_half_even y'"
proof (cases "\<lfloor>y\<rfloor> = \<lfloor>y'\<rfloor>")
  case True
  have "y - of_int \<lfloor>y'\<rfloor> \<le> y' - of_int \<lfloor>y'\<rfloor>" using assms by simp
  then show ?thesis
    by (simp add: round_half_even_def Let_def True)
next
  case False
  have "\<lfloor>y\<rfloor> \<le> \<lfloor>y'\<rfloor>" using assms by (rule floor_mono)
  then have "\<lfloor>y\<rfloor> + 1 \<le> \<lfloor>y'\<rfloor>" using False by simp
  then show ?thesis
    using round_half_even_bounds(2) [of y] round_half_even_bounds(1) [of y'] by linarith
qed

lemma round_half_even_ge: "of_int n \<le> y \<Longrightarrow> n \<le> round_half_even y"
  using round_half_even_mono [of "of_int n" y] by (simp only: round_half_even_of_int)

lemma round_half_even_le: "y \<le> of_int n \<Longrightarrow> round_half_even y \<le> n"
  using round_half_even_mono [of y "of_int n"] by (simp only: round_half_even_of_int)

lemma quantum_up_exponent: "1 \<le> (x::real) \<Longrightarrow> \<exists>k. 2 ^ k \<le> x \<and> x < 2 ^ Suc k"
proof (induction x rule: quantum_up.induct)
  case (1 x)
  show ?case
  proof (cases "x < 2")
    case True
    then have "2 ^ 0 \<le> x \<and> x < 2 ^ Suc 0" using "1.prems" by simp
    then show ?thesis ..
  next
    case False
    then have "1 \<le> x / 2" by simp
    with False obtain k where "2 ^ k \<le> x / 2 \<and> x / 2 < 2 ^ Suc k" using "1.IH" by blast
    then have "2 ^ Suc k \<le> x \<and> x < 2 ^ Suc (Suc k)" by simp
    then show ?thesis ..
  qed
qed

lemma quantum_down_exponent: "0 < (x::real) \<Longrightarrow> x < 1 \<Longrightarrow> \<exists>k. 1 / 2 ^ Suc k \<le> x \<and> x < 1 / 2 ^ k"
proof (induction x rule: quantum_down.induct)
  case (1 x)
  show ?case
  proof (cases "1 \<le> 2 * x")
    case True
    then have "1 / 2 ^ Suc 0 \<le> x \<and> x < 1 / 2 ^ 0" using "1.prems" by simp
    then show ?thesis ..
  next
    case False
    then have "0 < 2 * x" "2 * x < 1" using "1.prems" by simp_all
    moreover have "\<not> (x \<le> 0 \<or> 1 \<le> x)" using "1.prems" by simp
    ultimately obtain k where "1 / 2 ^ Suc k \<le> 2 * x \<and> 2 * x < 1 / 2 ^ k" using "1.IH" by blast
    then have "1 / 2 ^ Suc (Suc k) \<le> x \<and> x < 1 / 2 ^ Suc k" by (simp add: field_simps)
    then show ?thesis ..
  qed
qed

text \<open>The spacing is a power of two times the smallest one, and fits the value.\<close>

lemma quantum_structure:
  assumes "0 < a"
  shows "\<exists>j. quantum a = 2 ^ j * (1 / 2 ^ 1074) \<and> a < 2 ^ 53 * quantum a
            \<and> (0 < j \<longrightarrow> 2 ^ 52 * quantum a \<le> a)"
proof (cases "1 \<le> a")
  case True
  then obtain k where k: "2 ^ k \<le> a" "a < 2 ^ Suc k" using quantum_up_exponent by blast
  have q: "quantum a = 2 ^ k / 2 ^ 52" using k by (rule quantum_normal_up)
  have "(2::real) ^ (k + 1022) * (1 / 2 ^ 1074) = 2 ^ k * 2 ^ 1022 / (2 ^ 52 * 2 ^ 1022)"
    by (simp only: power_add pow_1074 mult.commute times_divide_eq_right mult_1_right)
  also have "\<dots> = 2 ^ k / 2 ^ 52"
    by (rule mult_divide_mult_cancel_right) (rule power_not_zero, simp)
  finally have "quantum a = 2 ^ (k + 1022) * (1 / 2 ^ 1074)" using q by simp
  moreover have "a < 2 ^ 53 * quantum a" using k(2) by (simp add: q)
  moreover have "2 ^ 52 * quantum a \<le> a" using k(1) by (simp add: q)
  ultimately show ?thesis by blast
next
  case False
  then have "a < 1" by simp
  with assms obtain k where k: "1 / 2 ^ Suc k \<le> a" "a < 1 / 2 ^ k"
    using quantum_down_exponent by blast
  show ?thesis
  proof (cases "k \<le> 1021")
    case True
    have q: "quantum a = 1 / 2 ^ Suc k / 2 ^ 52" using k True by (rule quantum_normal_down)
    have nz: "(2::real) ^ Suc k * 2 ^ 52 \<noteq> 0" by simp
    have "(2::real) ^ (1021 - k) * (1 / 2 ^ 1074)
          = 2 ^ (1021 - k) * 1 / (2 ^ (1021 - k) * (2 ^ Suc k * 2 ^ 52))"
      by (simp only: pow_1074_split [OF True] times_divide_eq_right)
    also have "\<dots> = 1 / (2 ^ Suc k * 2 ^ 52)"
      by (rule mult_divide_mult_cancel_left) (rule power_not_zero, simp)
    also have "\<dots> = 1 / 2 ^ Suc k / 2 ^ 52" by (simp only: divide_divide_eq_left)
    finally have "quantum a = 2 ^ (1021 - k) * (1 / 2 ^ 1074)" using q by simp
    moreover have "a < 2 ^ 53 * quantum a" using k(2) by (simp add: q)
    moreover have "2 ^ 52 * quantum a \<le> a" using k(1) by (simp add: q)
    ultimately show ?thesis by blast
  next
    case False
    then have big: "1021 < k" by simp
    have q: "quantum a = 1 / 2 ^ 1074" using k big by (rule quantum_subnormal)
    have "(1::real) / 2 ^ k \<le> 1 / 2 ^ 1022"
      by (rule divide_left_mono) (use big in \<open>simp_all only: zero_le_one mult_pos_pos zero_less_power zero_less_numeral\<close>, rule power_increasing, simp_all)
    also have "\<dots> = 2 ^ 52 * (1 / (2 ^ 1022 * 2 ^ 52))"
      by (rule rescale_reciprocal) (rule power_not_zero, simp)
    also have "\<dots> = 2 ^ 52 * quantum a" by (simp only: pow_1074 q)
    finally have "a < 2 ^ 52 * quantum a" using k(2) by linarith
    moreover have "0 < quantum a" by (simp only: q) simp
    ultimately have "a < 2 ^ 53 * quantum a" by simp
    moreover have "quantum a = 2 ^ 0 * (1 / 2 ^ 1074)" by (simp only: q power_0 mult_1)
    ultimately show ?thesis by blast
  qed
qed

lemma binary64_nonnegative:
  assumes "0 \<le> x"
  shows "0 \<le> binary64 x"
proof (cases "x = 0")
  case True
  then show ?thesis by (simp only: binary64_zero)
next
  case False
  then have x: "0 < x" using assms by simp
  have q: "0 < quantum x" by (rule quantum_positive)
  have "of_int 0 \<le> x / quantum x" using x q by simp
  then have "0 \<le> round_half_even (x / quantum x)" by (rule round_half_even_ge)
  then have "0 \<le> of_int (round_half_even (x / quantum x)) * quantum x" using q by simp
  then show ?thesis using x by (simp only: binary64_positive)
qed

lemma binary64_mono_positive:
  assumes "0 < a" and "a \<le> b"
  shows "binary64 a \<le> binary64 b"
proof -
  define u :: real where "u = 1 / 2 ^ 1074"
  have u: "0 < u" by (simp add: u_def)
  have b: "0 < b" using assms by simp
  obtain i where qa: "quantum a = 2 ^ i * u" and ua: "a < 2 ^ 53 * quantum a"
    and la: "0 < i \<longrightarrow> 2 ^ 52 * quantum a \<le> a"
    using quantum_structure [OF assms(1)] unfolding u_def by blast
  obtain j where qb: "quantum b = 2 ^ j * u" and ub: "b < 2 ^ 53 * quantum b"
    and lb: "0 < j \<longrightarrow> 2 ^ 52 * quantum b \<le> b"
    using quantum_structure [OF b] unfolding u_def by blast
  have pa: "0 < quantum a" and pb: "0 < quantum b" by (rule quantum_positive)+
  have Ra: "binary64 a = of_int (round_half_even (a / quantum a)) * quantum a"
    using assms(1) by (simp only: binary64_positive)
  have Rb: "binary64 b = of_int (round_half_even (b / quantum b)) * quantum b"
    using b by (simp only: binary64_positive)
  have ij: "i \<le> j"
  proof (rule ccontr)
    assume "\<not> i \<le> j"
    then have ji: "Suc j \<le> i" by simp
    then have "0 < i" by simp
    then have "2 ^ 52 * (2 ^ i * u) \<le> a" using la by (simp only: qa)
    also have "a \<le> b" by fact
    also have "b < 2 ^ 53 * (2 ^ j * u)" using ub by (simp only: qb)
    finally have "(2::real) ^ i < 2 * 2 ^ j" using u by simp
    then have "(2::real) ^ i < 2 ^ Suc j" by simp
    then have "i < Suc j" by (rule power_less_imp_less_exp [rotated]) simp
    then show False using ji by simp
  qed
  show ?thesis
  proof (cases "i = j")
    case True
    then have q: "quantum b = quantum a" by (simp only: qa qb)
    have "a / quantum a \<le> b / quantum a"
      using assms(2) pa by (simp add: divide_right_mono)
    then have "round_half_even (a / quantum a) \<le> round_half_even (b / quantum a)"
      by (rule round_half_even_mono)
    then show ?thesis using pa by (simp only: Ra Rb q) simp
  next
    case False
    then have lt: "Suc i \<le> j" using ij by simp
    then have "0 < j" by simp
    then have low: "2 ^ 52 * quantum b \<le> b" using lb by simp
    have "of_int (2 ^ 52) \<le> b / quantum b" using low pb by (simp add: field_simps)
    then have "2 ^ 52 \<le> round_half_even (b / quantum b)" by (rule round_half_even_ge)
    then have "of_int (2 ^ 52) * quantum b \<le> of_int (round_half_even (b / quantum b)) * quantum b"
      using pb by (simp only: mult_le_cancel_right_pos of_int_le_iff)
    then have 1: "2 ^ 52 * quantum b \<le> binary64 b" by (simp only: Rb) simp
    have "a / quantum a \<le> of_int (2 ^ 53)" using ua pa by (simp add: field_simps)
    then have "round_half_even (a / quantum a) \<le> 2 ^ 53" by (rule round_half_even_le)
    then have "of_int (round_half_even (a / quantum a)) * quantum a \<le> of_int (2 ^ 53) * quantum a"
      using pa by (simp only: mult_le_cancel_right_pos of_int_le_iff)
    then have 2: "binary64 a \<le> 2 ^ 53 * quantum a" by (simp only: Ra) simp
    have "(2::real) ^ Suc i \<le> 2 ^ j" using lt by (intro power_increasing) simp_all
    then have "2 ^ 53 * quantum a \<le> 2 ^ 52 * quantum b" using u by (simp add: qa qb)
    then show ?thesis using 1 2 by linarith
  qed
qed

lemma binary64_mono_nonnegative:
  assumes "0 \<le> a" and "a \<le> b"
  shows "binary64 a \<le> binary64 b"
proof (cases "a = 0")
  case True
  have "0 \<le> b" using assms by simp
  then show ?thesis unfolding True binary64_zero by (rule binary64_nonnegative)
next
  case False
  then have "0 < a" using assms(1) by simp
  then show ?thesis using assms(2) by (rule binary64_mono_positive)
qed

lemma binary64_mono:
  assumes "x \<le> y"
  shows "binary64 x \<le> binary64 y"
proof (cases "0 \<le> x")
  case True
  then show ?thesis using assms by (rule binary64_mono_nonnegative)
next
  case x: False
  show ?thesis
  proof (cases "y \<le> 0")
    case True
    then have "0 \<le> - y" "- y \<le> - x" using assms by simp_all
    then have "binary64 (- y) \<le> binary64 (- x)" by (rule binary64_mono_nonnegative)
    then show ?thesis by (simp only: binary64_uminus neg_le_iff_le)
  next
    case False
    then have "0 \<le> binary64 y" by (intro binary64_nonnegative) simp
    moreover have "0 \<le> binary64 (- x)" using x by (intro binary64_nonnegative) simp
    then have "binary64 x \<le> 0" by (simp only: binary64_uminus neg_0_le_iff_le)
    ultimately show ?thesis by linarith
  qed
qed

lemma monotone_rounding_binary64: "monotone_rounding binary64"
  unfolding monotone_rounding_def
proof (intro conjI allI impI)
  show "binary64 x \<le> binary64 y" if "x \<le> y" for x y using that by (rule binary64_mono)
  show "binary64 0 = 0" by (rule binary64_zero)
  show "binary64 1 = 1"
    using binary64_eval_up [of 0 1 4503599627370496] by (simp add: round_half_even_def)
qed

subsection \<open>Rounding separates values that are far enough apart\<close>

text \<open>
  The rounded value is within half a spacing of the value. Two values that differ by more
  than the spacing of the larger one are therefore rounded to different numbers.
\<close>

lemma round_half_even_error: "\<bar>of_int (round_half_even y) - y\<bar> \<le> 1 / 2"
proof -
  have "of_int \<lfloor>y\<rfloor> \<le> y" "y < of_int \<lfloor>y\<rfloor> + 1" by linarith+
  then show ?thesis by (auto simp: round_half_even_def Let_def abs_le_iff)
qed

lemma binary64_error:
  assumes "0 < x"
  shows "\<bar>binary64 x - x\<bar> \<le> quantum x / 2"
proof -
  have q: "0 < quantum x" by (rule quantum_positive)
  have "binary64 x - x = (of_int (round_half_even (x / quantum x)) - x / quantum x) * quantum x"
    using q assms by (simp add: binary64_positive [OF assms refl] algebra_simps)
  then have "\<bar>binary64 x - x\<bar> = \<bar>of_int (round_half_even (x / quantum x)) - x / quantum x\<bar> * quantum x"
    using q by (simp add: abs_mult)
  also have "\<dots> \<le> 1 / 2 * quantum x"
    using q by (intro mult_right_mono round_half_even_error) simp
  finally show ?thesis by simp
qed

lemma quantum_mono:
  assumes "0 < a" and "a \<le> b"
  shows "quantum a \<le> quantum b"
proof -
  define u :: real where "u = 1 / 2 ^ 1074"
  have u: "0 < u" by (simp add: u_def)
  have b: "0 < b" using assms by simp
  obtain i where qa: "quantum a = 2 ^ i * u" and la: "0 < i \<longrightarrow> 2 ^ 52 * quantum a \<le> a"
    using quantum_structure [OF assms(1)] unfolding u_def by blast
  obtain j where qb: "quantum b = 2 ^ j * u" and ub: "b < 2 ^ 53 * quantum b"
    using quantum_structure [OF b] unfolding u_def by blast
  have "i \<le> j"
  proof (rule ccontr)
    assume "\<not> i \<le> j"
    then have ji: "Suc j \<le> i" by simp
    then have "0 < i" by simp
    then have "2 ^ 52 * (2 ^ i * u) \<le> a" using la by (simp only: qa)
    also have "a \<le> b" by fact
    also have "b < 2 ^ 53 * (2 ^ j * u)" using ub by (simp only: qb)
    finally have "(2::real) ^ i < 2 * 2 ^ j" using u by simp
    then have "(2::real) ^ i < 2 ^ Suc j" by simp
    then have "i < Suc j" by (rule power_less_imp_less_exp [rotated]) simp
    then show False using ji by simp
  qed
  then have "(2::real) ^ i \<le> 2 ^ j" by (intro power_increasing) simp_all
  then show ?thesis using u by (simp add: qa qb)
qed

lemma binary64_strict:
  assumes "0 < x" and "x < y" and "quantum y < y - x"
  shows "binary64 x < binary64 y"
proof -
  have y: "0 < y" using assms(1,2) by simp
  have "quantum x \<le> quantum y" using assms(1,2) by (intro quantum_mono) simp_all
  moreover have "binary64 x \<le> x + quantum x / 2"
    using binary64_error [OF assms(1)] by linarith
  moreover have "y - quantum y / 2 \<le> binary64 y"
    using binary64_error [OF y] by linarith
  ultimately show ?thesis using assms(3) by linarith
qed

text \<open>A normal number is at least \<open>2 ^ 52\<close> times its spacing.\<close>

lemma quantum_normal:
  assumes "1 / 2 ^ 1022 \<le> y"
  shows "2 ^ 52 * quantum y \<le> y"
proof (cases "1 \<le> y")
  case True
  then obtain k where k: "2 ^ k \<le> y" "y < 2 ^ Suc k" using quantum_up_exponent by blast
  have "quantum y = 2 ^ k / 2 ^ 52" using k by (rule quantum_normal_up)
  then show ?thesis using k(1) by simp
next
  case False
  have "(0::real) < 1 / 2 ^ 1022" by (simp only: zero_less_divide_1_iff zero_less_power zero_less_numeral)
  then have pos: "0 < y" using assms by linarith
  with False obtain k where k: "1 / 2 ^ Suc k \<le> y" "y < 1 / 2 ^ k"
    using quantum_down_exponent [of y] by auto
  have "k \<le> 1021"
  proof (rule ccontr)
    assume "\<not> k \<le> 1021"
    then have "1022 \<le> k" by simp
    then have "(1::real) / 2 ^ k \<le> 1 / 2 ^ 1022"
      by (intro divide_left_mono power_increasing) simp_all
    then show False using k(2) assms by linarith
  qed
  with k have "quantum y = 1 / 2 ^ Suc k / 2 ^ 52" by (rule quantum_normal_down)
  then show ?thesis using k(1) by simp
qed

subsection \<open>The values of the runs\<close>

text \<open>
  The literals and the intermediate results of the run in testing mode
  (\<open>total_time = 0.3\<close>, \<open>dt = 0.05\<close>) and of the run in production mode
  (\<open>total_time = 1.5\<close>). Neither 0.3 nor 0.05 is a binary64 number; the quotient of the
  two numbers that stand for them rounds to the number just below 6.
\<close>

lemma binary64_1: "binary64 (1) = 1"
  using binary64_eval_up [of 0 "1" 4503599627370496] by (simp add: round_half_even_def)

lemma binary64_1_10: "binary64 (1 / 10) = 3602879701896397 / 36028797018963968"
  using binary64_eval_down [of 3 "1 / 10" 7205759403792794] by (simp add: round_half_even_def)

lemma binary64_3_10: "binary64 (3 / 10) = 5404319552844595 / 18014398509481984"
  using binary64_eval_down [of 1 "3 / 10" 5404319552844595] by (simp add: round_half_even_def)

lemma binary64_5_100: "binary64 (5 / 100) = 3602879701896397 / 72057594037927936"
  using binary64_eval_down [of 4 "5 / 100" 7205759403792794] by (simp add: round_half_even_def)

lemma binary64_15_10: "binary64 (15 / 10) = 3 / 2"
  using binary64_eval_up [of 0 "15 / 10" 6755399441055744] by (simp add: round_half_even_def)

lemma binary64_step_again: "binary64 (3602879701896397 / 72057594037927936) = 3602879701896397 / 72057594037927936"
  using binary64_eval_down [of 4 "3602879701896397 / 72057594037927936" 7205759403792794] by (simp add: round_half_even_def)

lemma binary64_quotient_testing: "binary64 ((5404319552844595 / 18014398509481984) / (3602879701896397 / 72057594037927936)) = 6755399441055743 / 1125899906842624"
  using binary64_eval_up [of 2 "(5404319552844595 / 18014398509481984) / (3602879701896397 / 72057594037927936)" 6755399441055743] by (simp add: round_half_even_def)

lemma binary64_quotient_production: "binary64 ((3 / 2) / (3602879701896397 / 72057594037927936)) = 30"
  using binary64_eval_up [of 4 "(3 / 2) / (3602879701896397 / 72057594037927936)" 8444249301319680] by (simp add: round_half_even_def)

lemma binary64_time_1: "binary64 (real 1 * (3602879701896397 / 72057594037927936)) = 3602879701896397 / 72057594037927936"
  using binary64_eval_down [of 4 "real 1 * (3602879701896397 / 72057594037927936)" 7205759403792794] by (simp add: round_half_even_def)

lemma binary64_time_2: "binary64 (real 2 * (3602879701896397 / 72057594037927936)) = 3602879701896397 / 36028797018963968"
  using binary64_eval_down [of 3 "real 2 * (3602879701896397 / 72057594037927936)" 7205759403792794] by (simp add: round_half_even_def)

lemma binary64_time_3: "binary64 (real 3 * (3602879701896397 / 72057594037927936)) = 1351079888211149 / 9007199254740992"
  using binary64_eval_down [of 2 "real 3 * (3602879701896397 / 72057594037927936)" 5404319552844596] by (simp add: round_half_even_def)

lemma binary64_time_4: "binary64 (real 4 * (3602879701896397 / 72057594037927936)) = 3602879701896397 / 18014398509481984"
  using binary64_eval_down [of 2 "real 4 * (3602879701896397 / 72057594037927936)" 7205759403792794] by (simp add: round_half_even_def)

lemma binary64_time_5: "binary64 (real 5 * (3602879701896397 / 72057594037927936)) = 1 / 4"
  using binary64_eval_down [of 1 "real 5 * (3602879701896397 / 72057594037927936)" 4503599627370496] by (simp add: round_half_even_def)

lemma binary64_time_6: "binary64 (real 6 * (3602879701896397 / 72057594037927936)) = 1351079888211149 / 4503599627370496"
  using binary64_eval_down [of 1 "real 6 * (3602879701896397 / 72057594037927936)" 5404319552844596] by (simp add: round_half_even_def)

lemma binary64_time_7: "binary64 (real 7 * (3602879701896397 / 72057594037927936)) = 6305039478318695 / 18014398509481984"
  using binary64_eval_down [of 1 "real 7 * (3602879701896397 / 72057594037927936)" 6305039478318695] by (simp add: round_half_even_def)

lemma binary64_time_8: "binary64 (real 8 * (3602879701896397 / 72057594037927936)) = 3602879701896397 / 9007199254740992"
  using binary64_eval_down [of 1 "real 8 * (3602879701896397 / 72057594037927936)" 7205759403792794] by (simp add: round_half_even_def)

lemma binary64_time_9: "binary64 (real 9 * (3602879701896397 / 72057594037927936)) = 8106479329266893 / 18014398509481984"
  using binary64_eval_down [of 1 "real 9 * (3602879701896397 / 72057594037927936)" 8106479329266893] by (simp add: round_half_even_def)

lemma binary64_time_10: "binary64 (real 10 * (3602879701896397 / 72057594037927936)) = 1 / 2"
  using binary64_eval_down [of 0 "real 10 * (3602879701896397 / 72057594037927936)" 4503599627370496] by (simp add: round_half_even_def)

lemma binary64_time_11: "binary64 (real 11 * (3602879701896397 / 72057594037927936)) = 2476979795053773 / 4503599627370496"
  using binary64_eval_down [of 0 "real 11 * (3602879701896397 / 72057594037927936)" 4953959590107546] by (simp add: round_half_even_def)

lemma binary64_time_12: "binary64 (real 12 * (3602879701896397 / 72057594037927936)) = 1351079888211149 / 2251799813685248"
  using binary64_eval_down [of 0 "real 12 * (3602879701896397 / 72057594037927936)" 5404319552844596] by (simp add: round_half_even_def)

lemma binary64_time_13: "binary64 (real 13 * (3602879701896397 / 72057594037927936)) = 5854679515581645 / 9007199254740992"
  using binary64_eval_down [of 0 "real 13 * (3602879701896397 / 72057594037927936)" 5854679515581645] by (simp add: round_half_even_def)

lemma binary64_time_14: "binary64 (real 14 * (3602879701896397 / 72057594037927936)) = 6305039478318695 / 9007199254740992"
  using binary64_eval_down [of 0 "real 14 * (3602879701896397 / 72057594037927936)" 6305039478318695] by (simp add: round_half_even_def)

lemma binary64_time_15: "binary64 (real 15 * (3602879701896397 / 72057594037927936)) = 3 / 4"
  using binary64_eval_down [of 0 "real 15 * (3602879701896397 / 72057594037927936)" 6755399441055744] by (simp add: round_half_even_def)

lemma binary64_time_16: "binary64 (real 16 * (3602879701896397 / 72057594037927936)) = 3602879701896397 / 4503599627370496"
  using binary64_eval_down [of 0 "real 16 * (3602879701896397 / 72057594037927936)" 7205759403792794] by (simp add: round_half_even_def)

lemma binary64_time_17: "binary64 (real 17 * (3602879701896397 / 72057594037927936)) = 1914029841632461 / 2251799813685248"
  using binary64_eval_down [of 0 "real 17 * (3602879701896397 / 72057594037927936)" 7656119366529844] by (simp add: round_half_even_def)

lemma binary64_time_18: "binary64 (real 18 * (3602879701896397 / 72057594037927936)) = 8106479329266893 / 9007199254740992"
  using binary64_eval_down [of 0 "real 18 * (3602879701896397 / 72057594037927936)" 8106479329266893] by (simp add: round_half_even_def)

lemma binary64_time_19: "binary64 (real 19 * (3602879701896397 / 72057594037927936)) = 8556839292003943 / 9007199254740992"
  using binary64_eval_down [of 0 "real 19 * (3602879701896397 / 72057594037927936)" 8556839292003943] by (simp add: round_half_even_def)

lemma binary64_time_20: "binary64 (real 20 * (3602879701896397 / 72057594037927936)) = 1"
  using binary64_eval_up [of 0 "real 20 * (3602879701896397 / 72057594037927936)" 4503599627370496] by (simp add: round_half_even_def)

lemma binary64_time_21: "binary64 (real 21 * (3602879701896397 / 72057594037927936)) = 4728779608739021 / 4503599627370496"
  using binary64_eval_up [of 0 "real 21 * (3602879701896397 / 72057594037927936)" 4728779608739021] by (simp add: round_half_even_def)

lemma binary64_time_22: "binary64 (real 22 * (3602879701896397 / 72057594037927936)) = 2476979795053773 / 2251799813685248"
  using binary64_eval_up [of 0 "real 22 * (3602879701896397 / 72057594037927936)" 4953959590107546] by (simp add: round_half_even_def)

lemma binary64_time_23: "binary64 (real 23 * (3602879701896397 / 72057594037927936)) = 5179139571476071 / 4503599627370496"
  using binary64_eval_up [of 0 "real 23 * (3602879701896397 / 72057594037927936)" 5179139571476071] by (simp add: round_half_even_def)

lemma binary64_time_24: "binary64 (real 24 * (3602879701896397 / 72057594037927936)) = 1351079888211149 / 1125899906842624"
  using binary64_eval_up [of 0 "real 24 * (3602879701896397 / 72057594037927936)" 5404319552844596] by (simp add: round_half_even_def)

lemma binary64_time_25: "binary64 (real 25 * (3602879701896397 / 72057594037927936)) = 5 / 4"
  using binary64_eval_up [of 0 "real 25 * (3602879701896397 / 72057594037927936)" 5629499534213120] by (simp add: round_half_even_def)

lemma binary64_time_26: "binary64 (real 26 * (3602879701896397 / 72057594037927936)) = 5854679515581645 / 4503599627370496"
  using binary64_eval_up [of 0 "real 26 * (3602879701896397 / 72057594037927936)" 5854679515581645] by (simp add: round_half_even_def)

lemma binary64_time_27: "binary64 (real 27 * (3602879701896397 / 72057594037927936)) = 3039929748475085 / 2251799813685248"
  using binary64_eval_up [of 0 "real 27 * (3602879701896397 / 72057594037927936)" 6079859496950170] by (simp add: round_half_even_def)

lemma binary64_time_28: "binary64 (real 28 * (3602879701896397 / 72057594037927936)) = 6305039478318695 / 4503599627370496"
  using binary64_eval_up [of 0 "real 28 * (3602879701896397 / 72057594037927936)" 6305039478318695] by (simp add: round_half_even_def)

lemma binary64_time_29: "binary64 (real 29 * (3602879701896397 / 72057594037927936)) = 1632554864921805 / 1125899906842624"
  using binary64_eval_up [of 0 "real 29 * (3602879701896397 / 72057594037927936)" 6530219459687220] by (simp add: round_half_even_def)

lemma binary64_time_30: "binary64 (real 30 * (3602879701896397 / 72057594037927936)) = 3 / 2"
  using binary64_eval_up [of 0 "real 30 * (3602879701896397 / 72057594037927936)" 6755399441055744] by (simp add: round_half_even_def)

lemma binary64_alpha_5: "binary64 ((1 / 4) / (5404319552844595 / 18014398509481984)) = 7505999378950827 / 9007199254740992"
  using binary64_eval_down [of 0 "(1 / 4) / (5404319552844595 / 18014398509481984)" 7505999378950827] by (simp add: round_half_even_def)

lemma binary64_one_minus_alpha_5: "binary64 (1 - 7505999378950827 / 9007199254740992) = 1501199875790165 / 9007199254740992"
  using binary64_eval_down [of 2 "1 - 7505999378950827 / 9007199254740992" 6004799503160660] by (simp add: round_half_even_def)

lemma binary64_one_minus_alpha_5_again: "binary64 (1501199875790165 / 9007199254740992) = 1501199875790165 / 9007199254740992"
  using binary64_eval_down [of 2 "1501199875790165 / 9007199254740992" 6004799503160660] by (simp add: round_half_even_def)

lemma binary64_52_1000: "binary64 (52 / 1000) = 7493989779944505 / 144115188075855872"
  using binary64_eval_down [of 4 "52 / 1000" 7493989779944505] by (simp add: round_half_even_def)

lemma binary64_52_1000_again: "binary64 (7493989779944505 / 144115188075855872) = 7493989779944505 / 144115188075855872"
  using binary64_eval_down [of 4 "7493989779944505 / 144115188075855872" 7493989779944505] by (simp add: round_half_even_def)

lemma binary64_966_1000: "binary64 (966 / 1000) = 4350477240039899 / 4503599627370496"
  using binary64_eval_down [of 0 "966 / 1000" 8700954480079798] by (simp add: round_half_even_def)

lemma binary64_966_1000_again: "binary64 (4350477240039899 / 4503599627370496) = 4350477240039899 / 4503599627370496"
  using binary64_eval_down [of 0 "4350477240039899 / 4503599627370496" 8700954480079798] by (simp add: round_half_even_def)

text \<open>
  The duration 0.35 with the step 0.01, which the program does not use: the quotient is
  35, and 35 steps of 0.01 round to the number just above 0.35.
\<close>

lemma binary64_35_100: "binary64 (35 / 100) = 3152519739159347 / 9007199254740992"
  using binary64_eval_down [of 1 "35 / 100" 6305039478318694] by (simp add: round_half_even_def)

lemma binary64_1_100: "binary64 (1 / 100) = 5764607523034235 / 576460752303423488"
  using binary64_eval_down [of 6 "1 / 100" 5764607523034235] by (simp add: round_half_even_def)

lemma binary64_quotient_35: "binary64 ((3152519739159347 / 9007199254740992) / (5764607523034235 / 576460752303423488)) = 35"
  using binary64_eval_up [of 5 "(3152519739159347 / 9007199254740992) / (5764607523034235 / 576460752303423488)" 4925812092436480] by (simp add: round_half_even_def)

lemma binary64_time_35: "binary64 (real 35 * (5764607523034235 / 576460752303423488)) = 6305039478318695 / 18014398509481984"
  using binary64_eval_down [of 1 "real 35 * (5764607523034235 / 576460752303423488)" 6305039478318695] by (simp add: round_half_even_def)

lemma binary64_alpha_35: "binary64 ((6305039478318695 / 18014398509481984) / (3152519739159347 / 9007199254740992)) = 4503599627370497 / 4503599627370496"
  using binary64_eval_up [of 0 "(6305039478318695 / 18014398509481984) / (3152519739159347 / 9007199254740992)" 4503599627370497] by (simp add: round_half_even_def)

lemma binary64_ulp: "binary64 (1 / 4503599627370496) = 1 / 4503599627370496"
  using binary64_eval_down [of 51 "1 / 4503599627370496" 4503599627370496] by (simp add: round_half_even_def)

text \<open>
  The first step of the run in testing mode for a coordinate that is 0.49 in both the
  start and the end vector.
\<close>

lemma binary64_49_100: "binary64 (49 / 100) = 2206763817411543 / 4503599627370496"
  using binary64_eval_down [of 1 "49 / 100" 8827055269646172] by (simp add: round_half_even_def)

lemma binary64_alpha_1: "binary64 ((3602879701896397 / 72057594037927936) / (5404319552844595 / 18014398509481984)) = 3002399751580331 / 18014398509481984"
  using binary64_eval_down [of 2 "(3602879701896397 / 72057594037927936) / (5404319552844595 / 18014398509481984)" 6004799503160662] by (simp add: round_half_even_def)

lemma binary64_one_minus_alpha_1: "binary64 (1 - 3002399751580331 / 18014398509481984) = 3752999689475413 / 4503599627370496"
  using binary64_eval_down [of 0 "1 - 3002399751580331 / 18014398509481984" 7505999378950826] by (simp add: round_half_even_def)

lemma binary64_start_part_1: "binary64 (3752999689475413 / 4503599627370496 * (2206763817411543 / 4503599627370496)) = 7355879391371809 / 18014398509481984"
  using binary64_eval_down [of 1 "3752999689475413 / 4503599627370496 * (2206763817411543 / 4503599627370496)" 7355879391371809] by (simp add: round_half_even_def)

lemma binary64_end_part_1: "binary64 (3002399751580331 / 18014398509481984 * (2206763817411543 / 4503599627370496)) = 5884703513097449 / 72057594037927936"
  using binary64_eval_down [of 3 "3002399751580331 / 18014398509481984 * (2206763817411543 / 4503599627370496)" 5884703513097449] by (simp add: round_half_even_def)

lemma binary64_sum_1: "binary64 (7355879391371809 / 18014398509481984 + 5884703513097449 / 72057594037927936) = 8827055269646171 / 18014398509481984"
  using binary64_eval_down [of 1 "7355879391371809 / 18014398509481984 + 5884703513097449 / 72057594037927936" 8827055269646171] by (simp add: round_half_even_def)

text \<open>
  Above \<open>2 ^ 53\<close> the spacing is 2, and \<open>2 ^ 53 + 1\<close> rounds to \<open>2 ^ 53\<close>.
\<close>

lemma binary64_2_54: "binary64 (18014398509481984 / 1) = 18014398509481984"
  using binary64_eval_up [of 54 "18014398509481984 / 1" 4503599627370496] by (simp add: round_half_even_def)

lemma binary64_time_2_53: "binary64 (real 9007199254740992 * 1) = 9007199254740992"
  using binary64_eval_up [of 53 "real 9007199254740992 * 1" 4503599627370496] by (simp add: round_half_even_def)

lemma binary64_time_2_53_1: "binary64 (real 9007199254740993 * 1) = 9007199254740992"
  using binary64_eval_up [of 53 "real 9007199254740993 * 1" 4503599627370496] by (simp add: round_half_even_def)

subsection \<open>The runs of the scene\<close>

lemma example_scene_binary64:
  "T1 (example_scene binary64) = 1"
  "T2 (example_scene binary64) = 3602879701896397 / 36028797018963968"
  "M0 (example_scene binary64) = 1"
  "testing_mode (example_scene binary64)"
  "equilibrium_end (example_scene binary64) =
     (7493989779944505 / 144115188075855872, 0, 4350477240039899 / 4503599627370496)"
  using binary64_1 binary64_1_10 binary64_52_1000 binary64_966_1000
  by (simp_all add: example_scene_def construct_def scene.defs relaxing_scene.defs)

text \<open>
  \<open>int(0.3 / 0.05)\<close> is 5, \<open>int(1.5 / 0.05)\<close> is 30, and \<open>int(0.35 / 0.01)\<close> is 35.
\<close>

lemma loop_steps_testing: "loop_steps binary64 (binary64 (3 / 10)) (binary64 (5 / 100)) = 5"
proof -
  have "nat \<lfloor>6755399441055743 / 1125899906842624 :: real\<rfloor> = 5" by simp
  then show ?thesis
    by (simp only: loop_steps_floor binary64_3_10 binary64_5_100 binary64_quotient_testing)
qed

lemma loop_steps_production: "loop_steps binary64 (binary64 (15 / 10)) (binary64 (5 / 100)) = 30"
proof -
  have "nat \<lfloor>30 :: real\<rfloor> = 30" by simp
  then show ?thesis
    by (simp only: loop_steps_floor binary64_15_10 binary64_5_100 binary64_quotient_production)
qed

lemma loop_steps_overshoot: "loop_steps binary64 (binary64 (35 / 100)) (binary64 (1 / 100)) = 35"
proof -
  have "nat \<lfloor>35 :: real\<rfloor> = 35" by simp
  then show ?thesis
    by (simp only: loop_steps_floor binary64_35_100 binary64_1_100 binary64_quotient_35)
qed

lemma step_times_testing:
  "map (step_time binary64 (binary64 (5 / 100))) [1, 2, 3, 4, 5] =
     [3602879701896397 / 72057594037927936, 3602879701896397 / 36028797018963968, 1351079888211149 / 9007199254740992, 3602879701896397 / 18014398509481984, 1 / 4]"
  by (simp only: list.map step_time_def binary64_5_100
      binary64_time_1 binary64_time_2 binary64_time_3 binary64_time_4 binary64_time_5)

lemma steps_production: "[1..<Suc 30] = [1, 2, 3, 4, 5, 6, 7, 8, 9, 10, 11, 12, 13, 14, 15, 16, 17, 18, 19, 20, 21, 22, 23, 24, 25, 26, 27, 28, 29, 30]"
  by (simp add: upt_rec)

lemma step_times_production:
  "map (step_time binary64 (binary64 (5 / 100))) [1..<Suc 30] =
     [3602879701896397 / 72057594037927936,
      3602879701896397 / 36028797018963968,
      1351079888211149 / 9007199254740992,
      3602879701896397 / 18014398509481984,
      1 / 4,
      1351079888211149 / 4503599627370496,
      6305039478318695 / 18014398509481984,
      3602879701896397 / 9007199254740992,
      8106479329266893 / 18014398509481984,
      1 / 2,
      2476979795053773 / 4503599627370496,
      1351079888211149 / 2251799813685248,
      5854679515581645 / 9007199254740992,
      6305039478318695 / 9007199254740992,
      3 / 4,
      3602879701896397 / 4503599627370496,
      1914029841632461 / 2251799813685248,
      8106479329266893 / 9007199254740992,
      8556839292003943 / 9007199254740992,
      1,
      4728779608739021 / 4503599627370496,
      2476979795053773 / 2251799813685248,
      5179139571476071 / 4503599627370496,
      1351079888211149 / 1125899906842624,
      5 / 4,
      5854679515581645 / 4503599627370496,
      3039929748475085 / 2251799813685248,
      6305039478318695 / 4503599627370496,
      1632554864921805 / 1125899906842624,
      3 / 2]"
  by (simp only: steps_production list.map step_time_def binary64_5_100
      binary64_time_1 binary64_time_2 binary64_time_3 binary64_time_4 binary64_time_5 binary64_time_6 binary64_time_7 binary64_time_8 binary64_time_9 binary64_time_10 binary64_time_11 binary64_time_12 binary64_time_13 binary64_time_14 binary64_time_15 binary64_time_16 binary64_time_17 binary64_time_18 binary64_time_19 binary64_time_20 binary64_time_21 binary64_time_22 binary64_time_23 binary64_time_24 binary64_time_25 binary64_time_26 binary64_time_27 binary64_time_28 binary64_time_29 binary64_time_30)

text \<open>
  In production mode the same expression gives all 30 steps, and the last step of the
  loop falls on \<open>total_time\<close> exactly.
\<close>

lemma production_mode_runs_thirty_steps:
  "loop_steps binary64 (binary64 (15 / 10)) (binary64 (5 / 100)) = 30
   \<and> step_time binary64 (binary64 (5 / 100)) 30 = binary64 (15 / 10)"
proof
  show "loop_steps binary64 (binary64 (15 / 10)) (binary64 (5 / 100)) = 30"
    by (rule loop_steps_production)
  show "step_time binary64 (binary64 (5 / 100)) 30 = binary64 (15 / 10)"
    by (simp only: step_time_def binary64_15_10 binary64_5_100 binary64_time_30)
qed

text \<open>
  The count of the specification, \<open>floor (totalDuration / stepSize)\<close>, is 6 for the numbers
  0.3 and 0.05 and 30 for 1.5 and 0.05. Taken on the binary64 numbers that stand for
  them it is 5 and 29: 0.3 is rounded down and 0.05 is rounded up. The loop runs 5 and 30
  times, so it agrees with neither reading in both modes.
\<close>

lemma spec_stepCount_of_the_runs:
  "spec_stepCount (3 / 10) (5 / 100) = 6"
  "spec_stepCount (15 / 10) (5 / 100) = 30"
  "spec_stepCount (binary64 (3 / 10)) (binary64 (5 / 100)) = 5"
  "spec_stepCount (binary64 (15 / 10)) (binary64 (5 / 100)) = 29"
proof -
  show "spec_stepCount (3 / 10) (5 / 100) = 6" "spec_stepCount (15 / 10) (5 / 100) = 30"
    by (simp_all add: spec_stepCount_def)
  have "spec_stepCount (5404319552844595 / 18014398509481984)
          (3602879701896397 / 72057594037927936) = 5"
    unfolding spec_stepCount_def by simp
  then show "spec_stepCount (binary64 (3 / 10)) (binary64 (5 / 100)) = 5"
    by (simp only: binary64_3_10 binary64_5_100)
  have "spec_stepCount (3 / 2) (3602879701896397 / 72057594037927936) = 29"
    unfolding spec_stepCount_def by simp
  then show "spec_stepCount (binary64 (15 / 10)) (binary64 (5 / 100)) = 29"
    by (simp only: binary64_15_10 binary64_5_100)
qed

text \<open>The two runs of \<open>show_relaxation_enhanced\<close>, for any scene with positive relaxation times.\<close>

lemma show_relaxation_enhanced_testing:
  assumes "0 < T1 sc" and "0 < T2 sc" and "testing_mode sc"
  shows "show_relaxation_enhanced binary64 sc =
           Inr (map (step_sample binary64 (0, M0 sc, 0) (equilibrium_end sc)
                       (binary64 (3 / 10)) (binary64 (5 / 100))) [1, 2, 3, 4, 5]
                @ [(equilibrium_end sc, binary64 (3 / 10))])"
proof -
  have "binary64 (3 / 10) \<noteq> 0" "binary64 (5 / 100) \<noteq> 0"
    by (simp_all only: binary64_3_10 binary64_5_100)
  then have nz: "T1 sc \<noteq> 0" "T2 sc \<noteq> 0" "binary64 (3 / 10) \<noteq> 0" "binary64 (5 / 100) \<noteq> 0"
    using assms(1,2) by simp_all
  have steps: "[1..<Suc (loop_steps binary64 (binary64 (3 / 10)) (binary64 (5 / 100)))] = [1, 2, 3, 4, 5]"
    by (simp only: loop_steps_testing) (simp add: upt_rec)
  have "show_relaxation_enhanced binary64 sc =
      relaxation_samples binary64 sc (0, M0 sc, 0) (binary64 (3 / 10)) (binary64 (5 / 100))"
    using assms(3) by (simp only: show_relaxation_enhanced_def Let_def if_True)
  also have "\<dots> = Inr (map (step_sample binary64 (0, M0 sc, 0) (equilibrium_end sc)
                       (binary64 (3 / 10)) (binary64 (5 / 100)))
                    [1..<Suc (loop_steps binary64 (binary64 (3 / 10)) (binary64 (5 / 100)))]
                @ [(equilibrium_end sc, binary64 (3 / 10))])"
    using nz by (rule relaxation_samples_value)
  finally show ?thesis by (simp only: steps)
qed

lemma show_relaxation_enhanced_production:
  assumes "0 < T1 sc" and "0 < T2 sc" and "\<not> testing_mode sc"
  shows "show_relaxation_enhanced binary64 sc =
           Inr (map (step_sample binary64 (0, M0 sc, 0) (equilibrium_end sc)
                       (binary64 (15 / 10)) (binary64 (5 / 100))) [1..<Suc 30]
                @ [(equilibrium_end sc, binary64 (15 / 10))])"
proof -
  have "binary64 (15 / 10) \<noteq> 0" "binary64 (5 / 100) \<noteq> 0"
    by (simp_all only: binary64_15_10 binary64_5_100)
  then have nz: "T1 sc \<noteq> 0" "T2 sc \<noteq> 0" "binary64 (15 / 10) \<noteq> 0" "binary64 (5 / 100) \<noteq> 0"
    using assms(1,2) by simp_all
  have "show_relaxation_enhanced binary64 sc =
      relaxation_samples binary64 sc (0, M0 sc, 0) (binary64 (15 / 10)) (binary64 (5 / 100))"
    using assms(3) by (simp only: show_relaxation_enhanced_def Let_def if_False)
  also have "\<dots> = Inr (map (step_sample binary64 (0, M0 sc, 0) (equilibrium_end sc)
                       (binary64 (15 / 10)) (binary64 (5 / 100)))
                    [1..<Suc (loop_steps binary64 (binary64 (15 / 10)) (binary64 (5 / 100)))]
                @ [(equilibrium_end sc, binary64 (15 / 10))])"
    using nz by (rule relaxation_samples_value)
  finally show ?thesis by (simp only: loop_steps_production)
qed

text \<open>
  The fifth step of the run in testing mode has the fraction 0.8333333333333334; the
  second coordinate of its position is 0.16666666666666663, not yet 0.
\<close>

lemma fifth_position_testing:
  "fst (snd (fst (step_sample binary64 (0, 1, 0) (x, 0, z) (binary64 (3 / 10)) (binary64 (5 / 100)) 5))) =
     1501199875790165 / 9007199254740992"
  by (simp only: step_sample_def fst_conv snd_conv step_position_def step_alpha_def step_time_def
      prod.case binary64_3_10 binary64_5_100 binary64_time_5 binary64_alpha_5
      mult_1_right mult_zero_right add_0_right binary64_zero
      binary64_one_minus_alpha_5 binary64_one_minus_alpha_5_again)

lemma testing_mode_run:
  "\<exists>p1 p2 p3 p4 p5.
     show_relaxation_enhanced binary64 (example_scene binary64) =
       Inr [(p1, 3602879701896397 / 72057594037927936),
            (p2, 3602879701896397 / 36028797018963968),
            (p3, 1351079888211149 / 9007199254740992),
            (p4, 3602879701896397 / 18014398509481984),
            (p5, 1 / 4),
            (equilibrium_end (example_scene binary64), 5404319552844595 / 18014398509481984)]
     \<and> p5 \<noteq> equilibrium_end (example_scene binary64)"
proof -
  define sc where "sc = example_scene binary64"
  define E where "E = equilibrium_end sc"
  define smp where
    "smp = step_sample binary64 (0, M0 sc, 0) E (binary64 (3 / 10)) (binary64 (5 / 100))"
  define p where "p = (\<lambda>i. fst (smp i))"
  have sc: "T1 sc = 1" "T2 sc = 3602879701896397 / 36028797018963968" "M0 sc = 1"
    "testing_mode sc"
    "E = (7493989779944505 / 144115188075855872, 0, 4350477240039899 / 4503599627370496)"
    by (simp_all only: sc_def E_def example_scene_binary64)
  have run: "show_relaxation_enhanced binary64 sc =
      Inr (map smp [1, 2, 3, 4, 5] @ [(E, binary64 (3 / 10))])"
    unfolding smp_def E_def by (rule show_relaxation_enhanced_testing) (simp_all add: sc)
  have "map snd (map smp [1, 2, 3, 4, 5]) =
      [3602879701896397 / 72057594037927936, 3602879701896397 / 36028797018963968, 1351079888211149 / 9007199254740992, 3602879701896397 / 18014398509481984, 1 / 4]"
    unfolding smp_def by (simp only: times_of_steps step_times_testing)
  then have t: "snd (smp 1) = 3602879701896397 / 72057594037927936" "snd (smp 2) = 3602879701896397 / 36028797018963968"
    "snd (smp 3) = 1351079888211149 / 9007199254740992" "snd (smp 4) = 3602879701896397 / 18014398509481984"
    "snd (smp 5) = 1 / 4"
    by simp_all
  have e: "smp 1 = (p 1, 3602879701896397 / 72057594037927936)" "smp 2 = (p 2, 3602879701896397 / 36028797018963968)"
    "smp 3 = (p 3, 1351079888211149 / 9007199254740992)" "smp 4 = (p 4, 3602879701896397 / 18014398509481984)"
    "smp 5 = (p 5, 1 / 4)"
    by (simp_all only: p_def t [symmetric] prod.collapse)
  have shown: "show_relaxation_enhanced binary64 sc =
      Inr [(p 1, 3602879701896397 / 72057594037927936), (p 2, 3602879701896397 / 36028797018963968),
           (p 3, 1351079888211149 / 9007199254740992), (p 4, 3602879701896397 / 18014398509481984),
           (p 5, 1 / 4), (E, 5404319552844595 / 18014398509481984)]"
    by (simp only: run list.map append.simps) (simp only: e binary64_3_10)
  have "fst (snd (p 5)) = 1501199875790165 / 9007199254740992"
    unfolding p_def smp_def sc(3,5) by (rule fifth_position_testing)
  then have "fst (snd (p 5)) \<noteq> fst (snd E)" by (simp add: sc(5))
  then have "p 5 \<noteq> E" by auto
  with shown show ?thesis unfolding E_def sc_def by blast
qed

subsection \<open>Order in a monotone arithmetic\<close>

lemma monotone_roundingD:
  assumes "monotone_rounding fl"
  shows "x \<le> y \<Longrightarrow> fl x \<le> fl y" and "fl 0 = 0" and "fl 1 = 1"
  using assms by (simp_all add: monotone_rounding_def)

lemma step_time_mono:
  assumes "monotone_rounding fl" and "0 \<le> dt" and "i \<le> j"
  shows "step_time fl dt i \<le> step_time fl dt j"
proof -
  have "real i * dt \<le> real j * dt" using assms(2,3) by (intro mult_right_mono) simp_all
  then show ?thesis unfolding step_time_def by (rule monotone_roundingD(1) [OF assms(1)])
qed

lemma step_time_nonnegative:
  assumes "monotone_rounding fl" and "0 \<le> dt"
  shows "0 \<le> step_time fl dt i"
proof -
  have "0 \<le> real i * dt" using assms(2) by simp
  then have "fl 0 \<le> fl (real i * dt)" by (rule monotone_roundingD(1) [OF assms(1)])
  then show ?thesis by (simp only: step_time_def monotone_roundingD(2) [OF assms(1)])
qed

lemma step_time_lower:
  assumes "monotone_rounding fl" and "0 \<le> dt" and "fl dt = dt" and "1 \<le> i"
  shows "dt \<le> step_time fl dt i"
proof -
  have "step_time fl dt 1 = dt" by (simp add: step_time_def assms(3))
  moreover have "step_time fl dt 1 \<le> step_time fl dt i"
    using assms(1,2,4) by (rule step_time_mono)
  ultimately show ?thesis by simp
qed

lemma step_times_sorted:
  assumes "monotone_rounding fl" and "0 \<le> dt"
  shows "sorted (map (step_time fl dt) [i..<j])"
proof -
  have "sorted_wrt (\<lambda>m n. step_time fl dt m \<le> step_time fl dt n) [i..<j]"
    by (rule sorted_wrt_mono_rel [of _ "(<)"]) (simp_all add: step_time_mono [OF assms])
  then show ?thesis by (simp only: sorted_map)
qed

lemma step_alpha_mono:
  assumes "monotone_rounding fl" and "0 \<le> dt" and "0 < total_time" and "i \<le> j"
  shows "step_alpha fl total_time dt i \<le> step_alpha fl total_time dt j"
proof -
  have "step_time fl dt i \<le> step_time fl dt j" using assms(1,2,4) by (rule step_time_mono)
  then have "step_time fl dt i / total_time \<le> step_time fl dt j / total_time"
    using assms(3) by (simp add: divide_right_mono)
  then show ?thesis unfolding step_alpha_def by (rule monotone_roundingD(1) [OF assms(1)])
qed

lemma step_alphas_sorted:
  assumes "monotone_rounding fl" and "0 \<le> dt" and "0 < total_time"
  shows "sorted (map (step_alpha fl total_time dt) [i..<j])"
proof -
  have "sorted_wrt (\<lambda>m n. step_alpha fl total_time dt m \<le> step_alpha fl total_time dt n) [i..<j]"
    by (rule sorted_wrt_mono_rel [of _ "(<)"]) (simp_all add: step_alpha_mono [OF assms])
  then show ?thesis by (simp only: sorted_map)
qed

lemma step_alpha_bounds:
  assumes "monotone_rounding fl" and "0 \<le> dt" and "0 < total_time"
    and "step_time fl dt i \<le> total_time"
  shows "0 \<le> step_alpha fl total_time dt i \<and> step_alpha fl total_time dt i \<le> 1"
proof
  have "0 \<le> step_time fl dt i" using assms(1,2) by (rule step_time_nonnegative)
  then have "0 \<le> step_time fl dt i / total_time" using assms(3) by simp
  then have "fl 0 \<le> fl (step_time fl dt i / total_time)"
    by (rule monotone_roundingD(1) [OF assms(1)])
  then show "0 \<le> step_alpha fl total_time dt i"
    by (simp only: step_alpha_def monotone_roundingD(2) [OF assms(1)])
next
  have "step_time fl dt i / total_time \<le> 1" using assms(3,4) by simp
  then have "fl (step_time fl dt i / total_time) \<le> fl 1"
    by (rule monotone_roundingD(1) [OF assms(1)])
  then show "step_alpha fl total_time dt i \<le> 1"
    by (simp only: step_alpha_def monotone_roundingD(3) [OF assms(1)])
qed

lemma loop_steps_positive:
  assumes "monotone_rounding fl" and "0 < dt" and "dt \<le> total_time"
  shows "1 \<le> loop_steps fl total_time dt"
proof -
  have "1 \<le> total_time / dt" using assms(2,3) by simp
  then have "fl 1 \<le> fl (total_time / dt)" by (rule monotone_roundingD(1) [OF assms(1)])
  then have "1 \<le> fl (total_time / dt)" by (simp only: monotone_roundingD(3) [OF assms(1)])
  then have "(1::int) \<le> \<lfloor>fl (total_time / dt)\<rfloor>" by (simp add: le_floor_iff)
  then have "nat 1 \<le> nat \<lfloor>fl (total_time / dt)\<rfloor>" by (rule nat_mono)
  then show ?thesis by (simp only: loop_steps_floor nat_one_as_int [symmetric] nat_int)
qed

text \<open>
  In the arithmetic of the interpreter the times of fewer than \<open>2 ^ 52\<close> steps of a normal
  step size (at least \<open>2 ^ -1022\<close>) are all different: consecutive products differ by the
  step, which is more than the spacing.
\<close>

lemma step_time_strict:
  assumes "1 / 2 ^ 1022 \<le> dt" and "0 < i" and "i < j" and "j < 2 ^ 52"
  shows "step_time binary64 dt i < step_time binary64 dt j"
proof -
  have "(0::real) < 1 / 2 ^ 1022" by (simp only: zero_less_divide_1_iff zero_less_power zero_less_numeral)
  then have dt: "0 < dt" using assms(1) by linarith
  have x: "0 < real i * dt" using assms(2) dt by simp
  have xy: "real i * dt < real j * dt" using assms(3) dt by simp
  have "1 * dt \<le> real j * dt" using assms(2,3) dt by (intro mult_right_mono) simp_all
  then have "1 / 2 ^ 1022 \<le> real j * dt" using assms(1) by linarith
  then have "2 ^ 52 * quantum (real j * dt) \<le> real j * dt" by (rule quantum_normal)
  moreover have "real j < 2 ^ 52" using assms(4) by (metis of_nat_less_iff of_nat_numeral of_nat_power)
  then have "real j * dt < 2 ^ 52 * dt" using dt by simp
  ultimately have "2 ^ 52 * quantum (real j * dt) < 2 ^ 52 * dt" by linarith
  then have "quantum (real j * dt) < dt" by simp
  also have "dt \<le> real j * dt - real i * dt"
  proof -
    have "real (Suc i) \<le> real j" using assms(3) by (simp only: of_nat_le_iff Suc_le_eq)
    then have "real (Suc i) * dt \<le> real j * dt" using dt by (intro mult_right_mono) simp_all
    then show ?thesis by (simp add: algebra_simps)
  qed
  finally show ?thesis unfolding step_time_def using x xy by (intro binary64_strict)
qed

lemma step_times_strictly_sorted:
  assumes "1 / 2 ^ 1022 \<le> dt" and "n < 2 ^ 52"
  shows "sorted_wrt (<) (map (step_time binary64 dt) [1..<Suc n])"
proof -
  have "sorted_wrt (\<lambda>i j. step_time binary64 dt i < step_time binary64 dt j) [1..<Suc n]"
  proof (rule sorted_wrt_mono_rel [of _ "(<)"])
    fix i j
    assume "i \<in> set [1..<Suc n]" and "j \<in> set [1..<Suc n]" and ij: "i < j"
    then have "0 < i" "j < 2 ^ 52" using assms(2) by auto
    with assms(1) ij show "step_time binary64 dt i < step_time binary64 dt j"
      by (intro step_time_strict)
  next
    show "sorted_wrt (<) [1..<Suc n]" by (rule sorted_wrt_upt)
  qed
  then show ?thesis by (simp only: sorted_wrt_map)
qed

text \<open>The times of the two runs of the scene increase strictly, from the step to the duration.\<close>

lemma show_relaxation_enhanced_times:
  assumes "0 < T1 sc" and "0 < T2 sc"
  shows "\<exists>loop. show_relaxation_enhanced binary64 sc =
             Inr (loop @ [(equilibrium_end sc,
                           if testing_mode sc then binary64 (3 / 10) else binary64 (15 / 10))])
           \<and> sorted_wrt (<) (map snd loop)
           \<and> list_all (\<lambda>s. binary64 (5 / 100) \<le> snd s
                            \<and> snd s \<le> (if testing_mode sc then binary64 (3 / 10) else binary64 (15 / 10)))
               loop"
proof (cases "testing_mode sc")
  case True
  define loop where "loop = map (step_sample binary64 (0, M0 sc, 0) (equilibrium_end sc)
                       (binary64 (3 / 10)) (binary64 (5 / 100))) [1, 2, 3, 4, 5]"
  have run: "show_relaxation_enhanced binary64 sc = Inr (loop @ [(equilibrium_end sc, binary64 (3 / 10))])"
    unfolding loop_def using assms True by (rule show_relaxation_enhanced_testing)
  have times: "map snd loop = [3602879701896397 / 72057594037927936, 3602879701896397 / 36028797018963968, 1351079888211149 / 9007199254740992, 3602879701896397 / 18014398509481984, 1 / 4]"
    unfolding loop_def by (simp only: times_of_steps step_times_testing)
  have "sorted_wrt (<) (map snd loop)" unfolding times by simp
  moreover have "\<forall>t \<in> set (map snd loop). 3602879701896397 / 72057594037927936 \<le> t \<and> t \<le> 5404319552844595 / 18014398509481984"
    unfolding times by simp
  then have "list_all (\<lambda>s. 3602879701896397 / 72057594037927936 \<le> snd s \<and> snd s \<le> 5404319552844595 / 18014398509481984) loop"
    by (simp add: list_all_iff)
  then have "list_all (\<lambda>s. binary64 (5 / 100) \<le> snd s \<and> snd s \<le> binary64 (3 / 10)) loop"
    by (simp only: binary64_3_10 binary64_5_100)
  ultimately have "show_relaxation_enhanced binary64 sc =
             Inr (loop @ [(equilibrium_end sc,
                           if testing_mode sc then binary64 (3 / 10) else binary64 (15 / 10))])
           \<and> sorted_wrt (<) (map snd loop)
           \<and> list_all (\<lambda>s. binary64 (5 / 100) \<le> snd s
                            \<and> snd s \<le> (if testing_mode sc then binary64 (3 / 10) else binary64 (15 / 10)))
               loop"
    using run True by (simp only: if_True simp_thms)
  then show ?thesis ..
next
  case False
  define loop where "loop = map (step_sample binary64 (0, M0 sc, 0) (equilibrium_end sc)
                       (binary64 (15 / 10)) (binary64 (5 / 100))) [1..<Suc 30]"
  have run: "show_relaxation_enhanced binary64 sc = Inr (loop @ [(equilibrium_end sc, binary64 (15 / 10))])"
    unfolding loop_def using assms False by (rule show_relaxation_enhanced_production)
  have times: "map snd loop =
     [3602879701896397 / 72057594037927936,
      3602879701896397 / 36028797018963968,
      1351079888211149 / 9007199254740992,
      3602879701896397 / 18014398509481984,
      1 / 4,
      1351079888211149 / 4503599627370496,
      6305039478318695 / 18014398509481984,
      3602879701896397 / 9007199254740992,
      8106479329266893 / 18014398509481984,
      1 / 2,
      2476979795053773 / 4503599627370496,
      1351079888211149 / 2251799813685248,
      5854679515581645 / 9007199254740992,
      6305039478318695 / 9007199254740992,
      3 / 4,
      3602879701896397 / 4503599627370496,
      1914029841632461 / 2251799813685248,
      8106479329266893 / 9007199254740992,
      8556839292003943 / 9007199254740992,
      1,
      4728779608739021 / 4503599627370496,
      2476979795053773 / 2251799813685248,
      5179139571476071 / 4503599627370496,
      1351079888211149 / 1125899906842624,
      5 / 4,
      5854679515581645 / 4503599627370496,
      3039929748475085 / 2251799813685248,
      6305039478318695 / 4503599627370496,
      1632554864921805 / 1125899906842624,
      3 / 2]"
    unfolding loop_def by (simp only: times_of_steps step_times_production)
  have "sorted_wrt (<) (map snd loop)" unfolding times by simp
  moreover have "\<forall>t \<in> set (map snd loop). 3602879701896397 / 72057594037927936 \<le> t \<and> t \<le> 3 / 2"
    unfolding times by simp
  then have "list_all (\<lambda>s. 3602879701896397 / 72057594037927936 \<le> snd s \<and> snd s \<le> 3 / 2) loop"
    by (simp add: list_all_iff)
  then have "list_all (\<lambda>s. binary64 (5 / 100) \<le> snd s \<and> snd s \<le> binary64 (15 / 10)) loop"
    by (simp only: binary64_15_10 binary64_5_100)
  ultimately have "show_relaxation_enhanced binary64 sc =
             Inr (loop @ [(equilibrium_end sc,
                           if testing_mode sc then binary64 (3 / 10) else binary64 (15 / 10))])
           \<and> sorted_wrt (<) (map snd loop)
           \<and> list_all (\<lambda>s. binary64 (5 / 100) \<le> snd s
                            \<and> snd s \<le> (if testing_mode sc then binary64 (3 / 10) else binary64 (15 / 10)))
               loop"
    using run False by (simp only: if_False simp_thms)
  then show ?thesis ..
qed

text \<open>
  The trajectory of the program starts at \<open>(0, M0, 0)\<close> and ends at a vector \<open>(x, 0, z)\<close>.
  With these zeros each coordinate of a position is one rounded product, and it follows
  the fraction: up for the first and the third coordinate, down for the second.
\<close>

lemma step_position_program:
  assumes "monotone_rounding fl"
  shows "step_position fl \<alpha> (0, m, 0) (x, 0, z) =
           (fl (fl (\<alpha> * x)), fl (fl (fl (1 - \<alpha>) * m)), fl (fl (\<alpha> * z)))"
  by (simp add: step_position_def monotone_roundingD(2) [OF assms])

lemma step_position_end:
  assumes "monotone_rounding fl" and "fl x = x" and "fl z = z"
  shows "step_position fl 1 (0, m, 0) (x, 0, z) = (x, 0, z)"
  by (simp add: step_position_program [OF assms(1)] monotone_roundingD(2) [OF assms(1)] assms(2,3))

lemma rounded_product_mono:
  assumes "monotone_rounding fl" and "0 \<le> x" and "\<alpha> \<le> \<beta>"
  shows "fl (fl (\<alpha> * x)) \<le> fl (fl (\<beta> * x))"
proof -
  have "\<alpha> * x \<le> \<beta> * x" using assms(2,3) by (rule mult_right_mono [rotated])
  then have "fl (\<alpha> * x) \<le> fl (\<beta> * x)" by (rule monotone_roundingD(1) [OF assms(1)])
  then show ?thesis by (rule monotone_roundingD(1) [OF assms(1)])
qed

lemma rounded_complement_antimono:
  assumes "monotone_rounding fl" and "0 \<le> m" and "\<alpha> \<le> \<beta>"
  shows "fl (fl (fl (1 - \<beta>) * m)) \<le> fl (fl (fl (1 - \<alpha>) * m))"
proof -
  have "1 - \<beta> \<le> 1 - \<alpha>" using assms(3) by simp
  then have "fl (1 - \<beta>) \<le> fl (1 - \<alpha>)" by (rule monotone_roundingD(1) [OF assms(1)])
  then have "fl (1 - \<beta>) * m \<le> fl (1 - \<alpha>) * m" using assms(2) by (rule mult_right_mono)
  then have "fl (fl (1 - \<beta>) * m) \<le> fl (fl (1 - \<alpha>) * m)"
    by (rule monotone_roundingD(1) [OF assms(1)])
  then show ?thesis by (rule monotone_roundingD(1) [OF assms(1)])
qed

lemma moves_monotonically_increasing:
  fixes f :: "real \<Rightarrow> real"
  assumes "sorted alphas" and "list_all (\<lambda>\<alpha>. 0 \<le> \<alpha> \<and> \<alpha> \<le> 1) alphas"
    and mono: "\<And>\<alpha> \<beta>. \<alpha> \<le> \<beta> \<Longrightarrow> f \<alpha> \<le> f \<beta>" and "f 0 = a" and "f 1 = b"
  shows "moves_monotonically a b (map f alphas)"
proof -
  have ab: "a \<le> b" using mono [of 0 1] assms(4,5) by simp
  have "sorted_wrt (\<lambda>\<alpha> \<beta>. f \<alpha> \<le> f \<beta>) alphas"
    using assms(1) by (rule sorted_wrt_mono_rel [rotated]) (simp add: mono)
  then have "sorted (map f alphas)" by (simp only: sorted_map)
  moreover have "a \<le> f \<alpha> \<and> f \<alpha> \<le> b" if "0 \<le> \<alpha>" "\<alpha> \<le> 1" for \<alpha>
    using mono [OF that(1)] mono [OF that(2)] assms(4,5) by simp
  then have "list_all (\<lambda>c. a \<le> c \<and> c \<le> b) (map f alphas)"
    using assms(2) by (simp add: list_all_iff)
  ultimately show ?thesis using ab by (simp add: moves_monotonically_def)
qed

lemma moves_monotonically_decreasing:
  fixes f :: "real \<Rightarrow> real"
  assumes "sorted alphas" and "list_all (\<lambda>\<alpha>. 0 \<le> \<alpha> \<and> \<alpha> \<le> 1) alphas"
    and anti: "\<And>\<alpha> \<beta>. \<alpha> \<le> \<beta> \<Longrightarrow> f \<beta> \<le> f \<alpha>" and "f 0 = a" and "f 1 = b" and "b < a"
  shows "moves_monotonically a b (map f alphas)"
proof -
  have "sorted_wrt (\<lambda>\<alpha> \<beta>. f \<beta> \<le> f \<alpha>) alphas"
    using assms(1) by (rule sorted_wrt_mono_rel [rotated]) (simp add: anti)
  then have "sorted (rev (map f alphas))"
    by (simp only: sorted_wrt_rev sorted_wrt_map)
  moreover have "b \<le> f \<alpha> \<and> f \<alpha> \<le> a" if "0 \<le> \<alpha>" "\<alpha> \<le> 1" for \<alpha>
    using anti [OF that(1)] anti [OF that(2)] assms(4,5) by simp
  then have "list_all (\<lambda>c. b \<le> c \<and> c \<le> a) (map f alphas)"
    using assms(2) by (simp add: list_all_iff)
  ultimately show ?thesis using assms(6) by (simp add: moves_monotonically_def)
qed

subsection \<open>Where rounding breaks the order\<close>

text \<open>
  The run with the duration 0.35 and the step 0.01: 35 steps, then the final sample. The
  35th step has the time 0.35000000000000003 and the fraction 1.0000000000000002.
\<close>

lemma overshoot_run:
  assumes "0 < T1 sc" and "0 < T2 sc"
  shows "relaxation_samples binary64 sc start_pos (binary64 (35 / 100)) (binary64 (1 / 100)) =
           Inr (map (step_sample binary64 start_pos (equilibrium_end sc)
                       (binary64 (35 / 100)) (binary64 (1 / 100))) [1..<Suc 35]
                @ [(equilibrium_end sc, binary64 (35 / 100))])"
proof -
  have "binary64 (35 / 100) \<noteq> 0" "binary64 (1 / 100) \<noteq> 0"
    by (simp_all only: binary64_35_100 binary64_1_100)
  then have "relaxation_samples binary64 sc start_pos (binary64 (35 / 100)) (binary64 (1 / 100)) =
           Inr (map (step_sample binary64 start_pos (equilibrium_end sc)
                       (binary64 (35 / 100)) (binary64 (1 / 100)))
                  [1..<Suc (loop_steps binary64 (binary64 (35 / 100)) (binary64 (1 / 100)))]
                @ [(equilibrium_end sc, binary64 (35 / 100))])"
    using assms by (intro relaxation_samples_value) simp_all
  then show ?thesis by (simp only: loop_steps_overshoot)
qed

lemma overshoot_time:
  "step_time binary64 (binary64 (1 / 100)) 35 = 6305039478318695 / 18014398509481984"
  by (simp only: step_time_def binary64_1_100 binary64_time_35)

lemma overshoot_alpha:
  "step_alpha binary64 (binary64 (35 / 100)) (binary64 (1 / 100)) 35 = 4503599627370497 / 4503599627370496"
  by (simp only: step_alpha_def overshoot_time binary64_35_100 binary64_alpha_35)

lemma binary64_one_minus_alpha_35:
  "binary64 (1 - 4503599627370497 / 4503599627370496) = - (1 / 4503599627370496)"
proof -
  have "1 - 4503599627370497 / 4503599627370496 = - (1 / 4503599627370496 :: real)" by simp
  then show ?thesis by (simp only: binary64_uminus binary64_ulp)
qed

lemma overshoot_position:
  "fst (snd (step_position binary64 (4503599627370497 / 4503599627370496) (0, 1, 0) (x, 0, z))) =
     - (1 / 4503599627370496)"
  by (simp only: step_position_def prod.case fst_conv snd_conv binary64_one_minus_alpha_35
      mult_1_right mult_zero_right add_0_right binary64_zero binary64_uminus binary64_ulp)

text \<open>
  The first step of the run in testing mode, for a first coordinate that is 0.49 at both
  ends: the fraction is 0.16666666666666669 and the coordinate 0.48999999999999994.
\<close>

lemma first_position_off_segment:
  "fst (fst (step_sample binary64 (binary64 (49 / 100), b, c) (binary64 (49 / 100), y, z)
               (binary64 (3 / 10)) (binary64 (5 / 100)) 1)) =
     8827055269646171 / 18014398509481984"
  by (simp only: step_sample_def step_position_def step_alpha_def step_time_def prod.case
      fst_conv binary64_3_10 binary64_5_100 binary64_49_100 binary64_time_1 binary64_alpha_1
      binary64_one_minus_alpha_1 binary64_start_part_1 binary64_end_part_1 binary64_sum_1)

text \<open>The duration \<open>2 ^ 54\<close> with the step 1: two consecutive steps have the same time.\<close>

lemma loop_steps_large: "loop_steps binary64 18014398509481984 1 = 18014398509481984"
proof -
  have "nat \<lfloor>18014398509481984 :: real\<rfloor> = 18014398509481984" by simp
  then show ?thesis by (simp only: loop_steps_floor binary64_2_54)
qed

lemma repeated_time:
  "step_time binary64 1 9007199254740992 = 9007199254740992"
  "step_time binary64 1 9007199254740993 = 9007199254740992"
  by (simp_all only: step_time_def binary64_time_2_53 binary64_time_2_53_1)

section \<open>The claims\<close>

text \<open>
  Claim C1 says that the loop shows the samples of the steps \<open>i = 1, \<dots>, stepCount\<close> with
  \<open>stepCount = floor (totalDuration / stepSize)\<close>. For the duration 0.3 and the step 0.05
  of the scene in testing mode that count is 6. The run shows the samples of the steps
  1 to 5 only, each as the closed form gives it, and then the final sample: the sample of
  the sixth step is missing, because \<open>int(0.3 / 0.05)\<close> is 5 in the arithmetic of the
  interpreter. This is the defect of claim C7.
\<close>

theorem testing_mode_loop_misses_sixth_step:
  "show_relaxation_enhanced binary64 (example_scene binary64) =
     Inr (map (step_sample binary64 (0, 1, 0) (equilibrium_end (example_scene binary64))
                 (binary64 (3 / 10)) (binary64 (5 / 100))) [1, 2, 3, 4, 5]
          @ [(equilibrium_end (example_scene binary64), binary64 (3 / 10))])
   \<and> loop_steps binary64 (binary64 (3 / 10)) (binary64 (5 / 100)) = 5
   \<and> spec_stepCount (3 / 10) (5 / 100) = 6"
proof (intro conjI)
  have "show_relaxation_enhanced binary64 (example_scene binary64) =
     Inr (map (step_sample binary64 (0, M0 (example_scene binary64), 0)
                 (equilibrium_end (example_scene binary64))
                 (binary64 (3 / 10)) (binary64 (5 / 100))) [1, 2, 3, 4, 5]
          @ [(equilibrium_end (example_scene binary64), binary64 (3 / 10))])"
    by (rule show_relaxation_enhanced_testing) (simp_all add: example_scene_binary64)
  then show "show_relaxation_enhanced binary64 (example_scene binary64) =
     Inr (map (step_sample binary64 (0, 1, 0) (equilibrium_end (example_scene binary64))
                 (binary64 (3 / 10)) (binary64 (5 / 100))) [1, 2, 3, 4, 5]
          @ [(equilibrium_end (example_scene binary64), binary64 (3 / 10))])"
    by (simp only: example_scene_binary64(3))
  show "loop_steps binary64 (binary64 (3 / 10)) (binary64 (5 / 100)) = 5"
    by (rule loop_steps_testing)
  show "spec_stepCount (3 / 10) (5 / 100) = 6"
    by (simp add: spec_stepCount_def)
qed

text \<open>
  Claim C2. For every positive duration and step (and positive relaxation times), the last
  sample shown has exactly the end vector as its position and exactly the total duration
  as its time, whether or not the step divides the duration; this holds in every
  arithmetic, since the final state is shown from the stored vector and not computed. In
  particular, over the reals, the duration 0.3 with the step 0.07 gives four samples of
  the loop, at the times 0.07, 0.14, 0.21 and 0.28, and then the final one at 0.30 on the
  end vector.
\<close>

theorem final_sample_is_end_vector:
  assumes "0 < totalDuration" and "0 < stepSize" and "0 < T1 sc" and "0 < T2 sc"
  shows "(\<exists>shown. relaxation_samples fl sc startVector totalDuration stepSize = Inr shown
            \<and> shown \<noteq> [] \<and> last shown = (equilibrium_end sc, totalDuration))
       \<and> (\<exists>shown. relaxation_samples exact sc startVector (3 / 10) (7 / 100) = Inr shown
            \<and> map snd shown = [7 / 100, 14 / 100, 21 / 100, 28 / 100, 3 / 10]
            \<and> last shown = (equilibrium_end sc, 3 / 10))"
proof
  show "\<exists>shown. relaxation_samples fl sc startVector totalDuration stepSize = Inr shown
            \<and> shown \<noteq> [] \<and> last shown = (equilibrium_end sc, totalDuration)"
    using assms by (simp add: relaxation_samples_value)
next
  have "relaxation_samples exact sc startVector (3 / 10) (7 / 100) =
          Inr (map (step_sample exact startVector (equilibrium_end sc) (3 / 10) (7 / 100))
                 [1..<Suc (loop_steps exact (3 / 10) (7 / 100))]
               @ [(equilibrium_end sc, 3 / 10)])"
    using assms by (simp add: relaxation_samples_value)
  moreover have "loop_steps exact (3 / 10) (7 / 100) = 4"
    by (simp add: loop_steps_exact)
  ultimately show "\<exists>shown. relaxation_samples exact sc startVector (3 / 10) (7 / 100) = Inr shown
            \<and> map snd shown = [7 / 100, 14 / 100, 21 / 100, 28 / 100, 3 / 10]
            \<and> last shown = (equilibrium_end sc, 3 / 10)"
    by (simp add: snd_step_sample step_time_exact upt_rec)
qed

theorem final_sample_is_end_vector_witness:
  "(\<exists>shown. relaxation_samples binary64 (example_scene exact) (0, 1, 0) (3 / 10) (1 / 20) = Inr shown
         \<and> shown \<noteq> [] \<and> last shown = ((52 / 1000, 0, 966 / 1000), 3 / 10))
   \<and> (\<exists>shown. relaxation_samples exact (example_scene exact) (0, 1, 0) (3 / 10) (7 / 100) = Inr shown
            \<and> map snd shown = [7 / 100, 14 / 100, 21 / 100, 28 / 100, 3 / 10]
            \<and> last shown = ((52 / 1000, 0, 966 / 1000), 3 / 10))"
  using final_sample_is_end_vector [of "3 / 10" "1 / 20" "example_scene exact" binary64 "(0, 1, 0)"]
  by (simp add: example_scene_exact)

text \<open>
  Claim C3 says that \<open>floor (totalDuration / stepSize) + 1\<close> samples are shown. For the
  duration 0.3 and the step 0.05 of the scene in testing mode that is 7; the run shows
  6 samples, five of the loop and the final one. This is the defect of claim C7.
\<close>

theorem testing_mode_shows_six_samples:
  "(\<exists>shown. show_relaxation_enhanced binary64 (example_scene binary64) = Inr shown
       \<and> length shown = 6)
   \<and> spec_stepCount (3 / 10) (5 / 100) + 1 = 7"
proof
  have "show_relaxation_enhanced binary64 (example_scene binary64) =
     Inr (map (step_sample binary64 (0, M0 (example_scene binary64), 0)
                 (equilibrium_end (example_scene binary64))
                 (binary64 (3 / 10)) (binary64 (5 / 100))) [1, 2, 3, 4, 5]
          @ [(equilibrium_end (example_scene binary64), binary64 (3 / 10))])"
    by (rule show_relaxation_enhanced_testing) (simp_all add: example_scene_binary64)
  moreover have "length (map (step_sample binary64 (0, M0 (example_scene binary64), 0)
                 (equilibrium_end (example_scene binary64))
                 (binary64 (3 / 10)) (binary64 (5 / 100))) [1, 2, 3, 4, 5]
          @ [(equilibrium_end (example_scene binary64), binary64 (3 / 10))]) = 6"
    by simp
  ultimately show "\<exists>shown. show_relaxation_enhanced binary64 (example_scene binary64) = Inr shown
       \<and> length shown = 6"
    by blast
  show "spec_stepCount (3 / 10) (5 / 100) + 1 = 7"
    by (simp add: spec_stepCount_def)
qed

text \<open>
  Claim C4. The samples do not depend on \<open>T1\<close> and \<open>T2\<close>: two runs that differ only in
  these two attributes, positive in both, show the same sequence. The factors
  \<open>exp (- t / T2)\<close> and \<open>1 - exp (- t / T1)\<close> are computed in each step and never reach
  the position.
\<close>

theorem samples_independent_of_T1_T2:
  assumes "0 < T1 sc" and "0 < T2 sc" and "0 < a" and "0 < b"
  shows "relaxation_samples fl (sc\<lparr>T1 := a, T2 := b\<rparr>) startVector totalDuration stepSize =
         relaxation_samples fl sc startVector totalDuration stepSize"
  using assms by (simp add: relaxation_samples_def relaxation_loop_T1_T2 Let_def cong: sum.case_cong)

theorem samples_independent_of_T1_T2_witness:
  "relaxation_samples binary64 ((example_scene exact)\<lparr>T1 := 3, T2 := 1 / 4\<rparr>) (0, 1, 0) (3 / 10) (1 / 20) =
   relaxation_samples binary64 (example_scene exact) (0, 1, 0) (3 / 10) (1 / 20)"
  using samples_independent_of_T1_T2 [of "example_scene exact" 3 "1 / 4" binary64 "(0, 1, 0)" "3 / 10" "1 / 20"]
  by (simp add: example_scene_exact)

text \<open>
  Claim C5, as amended. The equilibrium vector that ends the trajectory is
  \<open>(0.2 * sin tilt, 0, M0 * cos tilt)\<close> for the tilt of 15 degrees: the source scales the
  \<open>x\<close> component by the constant 0.2 (``small x component''), not by \<open>M0\<close>. It is
  assigned once, by \<open>demonstrate_bloch_physics\<close>; the scene that the run leaves still
  holds it, and the last position shown is that vector. Stated over the reals, for every
  scene with positive relaxation times.
\<close>

theorem equilibrium_vector_as_computed:
  assumes "0 < T1 sc0" and "0 < T2 sc0"
  shows "\<exists>sc shown. demonstrate_bloch_physics exact sc0 = Inr (sc, shown)
           \<and> equilibrium_end sc =
               (2 / 10 * sin (15 * DEGREES exact), 0, M0 sc0 * cos (15 * DEGREES exact))
           \<and> M0 sc = M0 sc0
           \<and> shown \<noteq> [] \<and> fst (last shown) = equilibrium_end sc"
  using assms by (rule demonstrate_bloch_physics_exact)

theorem equilibrium_vector_as_computed_witness:
  "\<exists>sc shown. demonstrate_bloch_physics exact (construct exact) = Inr (sc, shown)
           \<and> equilibrium_end sc =
               (2 / 10 * sin (15 * DEGREES exact), 0, 1 * cos (15 * DEGREES exact))
           \<and> M0 sc = 1
           \<and> shown \<noteq> [] \<and> fst (last shown) = equilibrium_end sc"
proof -
  have "\<exists>sc shown. demonstrate_bloch_physics exact (construct exact) = Inr (sc, shown)
           \<and> equilibrium_end sc =
               (2 / 10 * sin (15 * DEGREES exact), 0, M0 (construct exact) * cos (15 * DEGREES exact))
           \<and> M0 sc = M0 (construct exact)
           \<and> shown \<noteq> [] \<and> fst (last shown) = equilibrium_end sc"
    by (rule equilibrium_vector_as_computed) (simp_all add: construct_exact)
  then show ?thesis by (simp only: construct_exact)
qed

text \<open>
  Claim C5 as it was stated, with \<open>M0 * sin tilt\<close> as the \<open>x\<close> component, fails for the
  scene that \<open>construct\<close> builds (\<open>M0 = 1\<close>): the run succeeds and the stored vector has
  the \<open>x\<close> component \<open>0.2 * sin tilt\<close>, which differs from \<open>sin tilt\<close> since the sine of 15
  degrees is positive.
\<close>

theorem equilibrium_vector_not_M0_sin_tilt:
  "case demonstrate_bloch_physics exact (construct exact) of
     Inl e \<Rightarrow> False
   | Inr (sc, shown) \<Rightarrow>
       equilibrium_end sc \<noteq> (M0 sc * sin (15 * DEGREES exact), 0, M0 sc * cos (15 * DEGREES exact))"
proof -
  obtain sc shown where run: "demonstrate_bloch_physics exact (construct exact) = Inr (sc, shown)"
    and eq: "equilibrium_end sc =
               (2 / 10 * sin (15 * DEGREES exact), 0, M0 (construct exact) * cos (15 * DEGREES exact))"
    and m: "M0 sc = M0 (construct exact)"
    using demonstrate_bloch_physics_exact [of "construct exact"] by (auto simp: construct_exact)
  have "2 / 10 * sin (15 * DEGREES exact) \<noteq> 1 * sin (15 * DEGREES exact)"
    using sin_initial_tilt_pos by (simp add: DEGREES_exact)
  then show ?thesis
    by (simp add: run eq m construct_exact)
qed

text \<open>
  Claim C6, as amended. In an arithmetic whose rounding keeps the order, for a step that
  is a number of the arithmetic with \<open>0 < stepSize \<le> totalDuration\<close>, and provided that
  rounding does not carry the time of the last step of the loop above the duration: the
  loop shows at least one sample, its times never decrease, each lies in the closed
  interval from the step to the total duration, and the whole sequence of times, with
  the final sample at the total duration exactly, never decreases. In the arithmetic of
  the interpreter the times of the loop increase strictly when the step is a normal
  number (at least \<open>2 ^ -1022\<close>) and the loop has fewer than \<open>2 ^ 52\<close> steps. For the two
  runs of the program (duration 0.3 or 1.5, step 0.05) the times of the loop increase
  strictly and lie between the step and the duration.
\<close>

theorem times_nondecreasing_and_bounded:
  assumes "monotone_rounding fl" and "fl stepSize = stepSize"
    and "0 < stepSize" and "stepSize \<le> totalDuration" and "0 < T1 sc" and "0 < T2 sc"
    and "step_time fl stepSize (loop_steps fl totalDuration stepSize) \<le> totalDuration"
  shows "(\<exists>loop. relaxation_samples fl sc startVector totalDuration stepSize =
             Inr (loop @ [(equilibrium_end sc, totalDuration)])
           \<and> loop \<noteq> []
           \<and> sorted (map snd loop)
           \<and> list_all (\<lambda>s. stepSize \<le> snd s \<and> snd s \<le> totalDuration) loop
           \<and> sorted (map snd (loop @ [(equilibrium_end sc, totalDuration)])))
       \<and> (1 / 2 ^ 1022 \<le> stepSize \<and> loop_steps binary64 totalDuration stepSize < 2 ^ 52 \<longrightarrow>
            (\<exists>loop. relaxation_samples binary64 sc startVector totalDuration stepSize =
               Inr (loop @ [(equilibrium_end sc, totalDuration)])
             \<and> sorted_wrt (<) (map snd loop)))
       \<and> (\<exists>loop. show_relaxation_enhanced binary64 sc =
             Inr (loop @ [(equilibrium_end sc,
                           if testing_mode sc then binary64 (3 / 10) else binary64 (15 / 10))])
           \<and> sorted_wrt (<) (map snd loop)
           \<and> list_all (\<lambda>s. binary64 (5 / 100) \<le> snd s
                            \<and> snd s \<le> (if testing_mode sc then binary64 (3 / 10) else binary64 (15 / 10)))
               loop)"
proof (intro conjI impI)
  define n where "n = loop_steps fl totalDuration stepSize"
  define loop where
    "loop = map (step_sample fl startVector (equilibrium_end sc) totalDuration stepSize) [1..<Suc n]"
  have dt: "0 \<le> stepSize" using assms(3) by simp
  have T: "0 < totalDuration" using assms(3,4) by simp
  have times: "map snd loop = map (step_time fl stepSize) [1..<Suc n]"
    by (simp only: loop_def times_of_steps)
  have run: "relaxation_samples fl sc startVector totalDuration stepSize =
             Inr (loop @ [(equilibrium_end sc, totalDuration)])"
    unfolding loop_def n_def using assms(3,5,6) T by (intro relaxation_samples_value) simp_all
  have n: "1 \<le> n" unfolding n_def using assms(1,3,4) by (rule loop_steps_positive)
  then have nonempty: "loop \<noteq> []" by (simp add: loop_def)
  have incr: "sorted (map snd loop)"
    unfolding times using assms(1) dt by (rule step_times_sorted)
  have bound: "stepSize \<le> t \<and> t \<le> totalDuration" if "t \<in> set (map snd loop)" for t
  proof -
    from that obtain i where i: "1 \<le> i" "i \<le> n" and t: "t = step_time fl stepSize i"
      unfolding times by auto
    have "stepSize \<le> step_time fl stepSize i"
      using assms(1) dt assms(2) i(1) by (rule step_time_lower)
    moreover have "step_time fl stepSize i \<le> step_time fl stepSize n"
      using assms(1) dt i(2) by (rule step_time_mono)
    moreover have "step_time fl stepSize n \<le> totalDuration"
      using assms(7) by (simp only: n_def)
    ultimately show ?thesis by (simp add: t)
  qed
  then have all: "list_all (\<lambda>s. stepSize \<le> snd s \<and> snd s \<le> totalDuration) loop"
    by (simp add: list_all_iff)
  have "\<forall>t \<in> set (map snd loop). t \<le> totalDuration" using bound by blast
  with incr have "sorted (map snd (loop @ [(equilibrium_end sc, totalDuration)]))"
    by (simp add: sorted_append)
  with run nonempty incr all
  show "\<exists>loop. relaxation_samples fl sc startVector totalDuration stepSize =
             Inr (loop @ [(equilibrium_end sc, totalDuration)])
           \<and> loop \<noteq> []
           \<and> sorted (map snd loop)
           \<and> list_all (\<lambda>s. stepSize \<le> snd s \<and> snd s \<le> totalDuration) loop
           \<and> sorted (map snd (loop @ [(equilibrium_end sc, totalDuration)]))"
    by blast
next
  assume "1 / 2 ^ 1022 \<le> stepSize \<and> loop_steps binary64 totalDuration stepSize < 2 ^ 52"
  then have normal: "1 / 2 ^ 1022 \<le> stepSize"
    and few: "loop_steps binary64 totalDuration stepSize < 2 ^ 52" by (rule conjunct1, rule conjunct2)
  define loop where
    "loop = map (step_sample binary64 startVector (equilibrium_end sc) totalDuration stepSize)
              [1..<Suc (loop_steps binary64 totalDuration stepSize)]"
  have T: "0 < totalDuration" using assms(3,4) by simp
  have "relaxation_samples binary64 sc startVector totalDuration stepSize =
             Inr (loop @ [(equilibrium_end sc, totalDuration)])"
    unfolding loop_def using assms(3,5,6) T by (intro relaxation_samples_value) simp_all
  moreover have "sorted_wrt (<) (map snd loop)"
    unfolding loop_def times_of_steps using normal few by (rule step_times_strictly_sorted)
  ultimately show "\<exists>loop. relaxation_samples binary64 sc startVector totalDuration stepSize =
               Inr (loop @ [(equilibrium_end sc, totalDuration)])
             \<and> sorted_wrt (<) (map snd loop)"
    by blast
next
  show "\<exists>loop. show_relaxation_enhanced binary64 sc =
             Inr (loop @ [(equilibrium_end sc,
                           if testing_mode sc then binary64 (3 / 10) else binary64 (15 / 10))])
           \<and> sorted_wrt (<) (map snd loop)
           \<and> list_all (\<lambda>s. binary64 (5 / 100) \<le> snd s
                            \<and> snd s \<le> (if testing_mode sc then binary64 (3 / 10) else binary64 (15 / 10)))
               loop"
    using assms(5,6) by (rule show_relaxation_enhanced_times)
qed

theorem times_nondecreasing_and_bounded_witness:
  "(\<exists>loop. relaxation_samples binary64 (example_scene binary64) (0, 1, 0)
              (binary64 (3 / 10)) (binary64 (5 / 100)) =
             Inr (loop @ [(equilibrium_end (example_scene binary64), binary64 (3 / 10))])
           \<and> loop \<noteq> []
           \<and> sorted (map snd loop)
           \<and> list_all (\<lambda>s. binary64 (5 / 100) \<le> snd s \<and> snd s \<le> binary64 (3 / 10)) loop
           \<and> sorted (map snd (loop @ [(equilibrium_end (example_scene binary64), binary64 (3 / 10))])))
       \<and> (\<exists>loop. relaxation_samples binary64 (example_scene binary64) (0, 1, 0)
              (binary64 (3 / 10)) (binary64 (5 / 100)) =
             Inr (loop @ [(equilibrium_end (example_scene binary64), binary64 (3 / 10))])
           \<and> sorted_wrt (<) (map snd loop))
       \<and> (\<exists>loop. show_relaxation_enhanced binary64 (example_scene binary64) =
             Inr (loop @ [(equilibrium_end (example_scene binary64),
                           if testing_mode (example_scene binary64)
                           then binary64 (3 / 10) else binary64 (15 / 10))])
           \<and> sorted_wrt (<) (map snd loop)
           \<and> list_all (\<lambda>s. binary64 (5 / 100) \<le> snd s
                            \<and> snd s \<le> (if testing_mode (example_scene binary64)
                                          then binary64 (3 / 10) else binary64 (15 / 10)))
               loop)"
proof -
  have "(1 / 4 :: real) \<le> 5404319552844595 / 18014398509481984" by simp
  then have last: "step_time binary64 (binary64 (5 / 100))
          (loop_steps binary64 (binary64 (3 / 10)) (binary64 (5 / 100))) \<le> binary64 (3 / 10)"
    by (simp only: loop_steps_testing)
       (simp only: step_time_def binary64_5_100 binary64_time_5 binary64_3_10)
  have "(1::real) / 2 ^ 1022 \<le> 1 / 2 ^ 5"
    by (intro divide_left_mono power_increasing) simp_all
  also have "\<dots> \<le> binary64 (5 / 100)" unfolding binary64_5_100 by simp
  finally have normal: "1 / 2 ^ 1022 \<le> binary64 (5 / 100)" .
  have few: "loop_steps binary64 (binary64 (3 / 10)) (binary64 (5 / 100)) < 2 ^ 52"
    by (simp only: loop_steps_testing) simp
  have run: "(\<exists>loop. relaxation_samples binary64 (example_scene binary64) (0, 1, 0)
              (binary64 (3 / 10)) (binary64 (5 / 100)) =
             Inr (loop @ [(equilibrium_end (example_scene binary64), binary64 (3 / 10))])
           \<and> loop \<noteq> []
           \<and> sorted (map snd loop)
           \<and> list_all (\<lambda>s. binary64 (5 / 100) \<le> snd s \<and> snd s \<le> binary64 (3 / 10)) loop
           \<and> sorted (map snd (loop @ [(equilibrium_end (example_scene binary64), binary64 (3 / 10))])))
       \<and> (1 / 2 ^ 1022 \<le> binary64 (5 / 100)
            \<and> loop_steps binary64 (binary64 (3 / 10)) (binary64 (5 / 100)) < 2 ^ 52 \<longrightarrow>
            (\<exists>loop. relaxation_samples binary64 (example_scene binary64) (0, 1, 0)
              (binary64 (3 / 10)) (binary64 (5 / 100)) =
               Inr (loop @ [(equilibrium_end (example_scene binary64), binary64 (3 / 10))])
             \<and> sorted_wrt (<) (map snd loop)))
       \<and> (\<exists>loop. show_relaxation_enhanced binary64 (example_scene binary64) =
             Inr (loop @ [(equilibrium_end (example_scene binary64),
                           if testing_mode (example_scene binary64)
                           then binary64 (3 / 10) else binary64 (15 / 10))])
           \<and> sorted_wrt (<) (map snd loop)
           \<and> list_all (\<lambda>s. binary64 (5 / 100) \<le> snd s
                            \<and> snd s \<le> (if testing_mode (example_scene binary64)
                                          then binary64 (3 / 10) else binary64 (15 / 10)))
               loop)"
  proof (rule times_nondecreasing_and_bounded)
    show "monotone_rounding binary64" by (rule monotone_rounding_binary64)
    show "binary64 (binary64 (5 / 100)) = binary64 (5 / 100)"
      by (simp only: binary64_5_100 binary64_step_again)
    show "0 < binary64 (5 / 100)" by (simp only: binary64_5_100)
    show "binary64 (5 / 100) \<le> binary64 (3 / 10)" by (simp only: binary64_5_100 binary64_3_10)
    show "0 < T1 (example_scene binary64)" "0 < T2 (example_scene binary64)"
      by (simp_all add: example_scene_binary64)
    show "step_time binary64 (binary64 (5 / 100))
          (loop_steps binary64 (binary64 (3 / 10)) (binary64 (5 / 100))) \<le> binary64 (3 / 10)"
      by (rule last)
  qed
  show ?thesis
  proof (intro conjI)
    show "\<exists>loop. relaxation_samples binary64 (example_scene binary64) (0, 1, 0)
              (binary64 (3 / 10)) (binary64 (5 / 100)) =
             Inr (loop @ [(equilibrium_end (example_scene binary64), binary64 (3 / 10))])
           \<and> loop \<noteq> []
           \<and> sorted (map snd loop)
           \<and> list_all (\<lambda>s. binary64 (5 / 100) \<le> snd s \<and> snd s \<le> binary64 (3 / 10)) loop
           \<and> sorted (map snd (loop @ [(equilibrium_end (example_scene binary64), binary64 (3 / 10))]))"
      by (rule conjunct1 [OF run])
    show "\<exists>loop. relaxation_samples binary64 (example_scene binary64) (0, 1, 0)
              (binary64 (3 / 10)) (binary64 (5 / 100)) =
             Inr (loop @ [(equilibrium_end (example_scene binary64), binary64 (3 / 10))])
           \<and> sorted_wrt (<) (map snd loop)"
      by (rule mp [OF conjunct1 [OF conjunct2 [OF run]] conjI [OF normal few]])
    show "\<exists>loop. show_relaxation_enhanced binary64 (example_scene binary64) =
             Inr (loop @ [(equilibrium_end (example_scene binary64),
                           if testing_mode (example_scene binary64)
                           then binary64 (3 / 10) else binary64 (15 / 10))])
           \<and> sorted_wrt (<) (map snd loop)
           \<and> list_all (\<lambda>s. binary64 (5 / 100) \<le> snd s
                            \<and> snd s \<le> (if testing_mode (example_scene binary64)
                                          then binary64 (3 / 10) else binary64 (15 / 10)))
               loop"
      by (rule conjunct2 [OF conjunct2 [OF run]])
  qed
qed

text \<open>
  Claim C6 as it was stated fails in the arithmetic of the interpreter. For the duration
  0.35 and the step 0.01 (all hypotheses of the claim hold) the loop has 35 steps, and the
  time of the last one, 0.35000000000000003, is above the duration: it lies outside the
  interval, and the time of the final sample, which follows it, is smaller. For the
  duration \<open>2 ^ 54\<close> and the step 1 the steps \<open>2 ^ 53\<close> and \<open>2 ^ 53 + 1\<close> have the same
  time, \<open>2 ^ 53\<close>, so the increase is not strict (the interpreter converts the index
  \<open>2 ^ 53 + 1\<close> to the float \<open>2 ^ 53\<close> before it multiplies by 1, with the same result).
\<close>

theorem rounded_times_overshoot_and_repeat:
  "0 < binary64 (1 / 100) \<and> binary64 (1 / 100) \<le> binary64 (35 / 100)
   \<and> (\<exists>shown. relaxation_samples binary64 (example_scene binary64) (0, 1, 0)
                 (binary64 (35 / 100)) (binary64 (1 / 100)) = Inr shown
        \<and> length shown = 36
        \<and> binary64 (35 / 100) < snd (shown ! 34)
        \<and> snd (shown ! 35) < snd (shown ! 34))
   \<and> (\<exists>shown. relaxation_samples binary64 (example_scene binary64) (0, 1, 0)
                 18014398509481984 1 = Inr shown
        \<and> length shown = 18014398509481985
        \<and> snd (shown ! 9007199254740991) = snd (shown ! 9007199254740992))"
proof (intro conjI)
  show "0 < binary64 (1 / 100)" by (simp only: binary64_1_100)
  show "binary64 (1 / 100) \<le> binary64 (35 / 100)" by (simp only: binary64_1_100 binary64_35_100)
next
  define E where "E = equilibrium_end (example_scene binary64)"
  define smp where
    "smp = step_sample binary64 (0, 1, 0) E (binary64 (35 / 100)) (binary64 (1 / 100))"
  define shown where "shown = map smp [1..<Suc 35] @ [(E, binary64 (35 / 100))]"
  have run: "relaxation_samples binary64 (example_scene binary64) (0, 1, 0)
                 (binary64 (35 / 100)) (binary64 (1 / 100)) = Inr shown"
    unfolding shown_def smp_def E_def
    by (rule overshoot_run) (simp_all add: example_scene_binary64)
  have len: "length shown = 36" by (simp add: shown_def)
  have "shown ! 34 = smp 35" by (simp add: shown_def nth_append)
  then have t34: "snd (shown ! 34) = 6305039478318695 / 18014398509481984"
    by (simp only: smp_def snd_step_sample overshoot_time)
  have "shown ! 35 = (E, binary64 (35 / 100))" by (simp add: shown_def nth_append)
  then have t35: "snd (shown ! 35) = 3152519739159347 / 9007199254740992"
    by (simp only: snd_conv binary64_35_100)
  have "binary64 (35 / 100) < snd (shown ! 34)" unfolding t34 binary64_35_100 by simp
  moreover have "snd (shown ! 35) < snd (shown ! 34)" unfolding t34 t35 by simp
  ultimately show "\<exists>shown. relaxation_samples binary64 (example_scene binary64) (0, 1, 0)
                 (binary64 (35 / 100)) (binary64 (1 / 100)) = Inr shown
        \<and> length shown = 36
        \<and> binary64 (35 / 100) < snd (shown ! 34)
        \<and> snd (shown ! 35) < snd (shown ! 34)"
    using run len by blast
next
  define E where "E = equilibrium_end (example_scene binary64)"
  define smp where "smp = step_sample binary64 (0, 1, 0) E 18014398509481984 1"
  define shown where
    "shown = map smp [1..<Suc 18014398509481984] @ [(E, 18014398509481984)]"
  have "relaxation_samples binary64 (example_scene binary64) (0, 1, 0) 18014398509481984 1 =
      Inr (map (step_sample binary64 (0, 1, 0) (equilibrium_end (example_scene binary64))
                  18014398509481984 1)
             [1..<Suc (loop_steps binary64 18014398509481984 1)]
           @ [(equilibrium_end (example_scene binary64), 18014398509481984)])"
    by (rule relaxation_samples_value) (simp_all add: example_scene_binary64)
  then have run: "relaxation_samples binary64 (example_scene binary64) (0, 1, 0)
                 18014398509481984 1 = Inr shown"
    by (simp only: loop_steps_large shown_def smp_def E_def)
  have len: "length shown = 18014398509481985" by (simp add: shown_def)
  have "shown ! 9007199254740991 = smp 9007199254740992"
    by (simp add: shown_def nth_append)
  moreover have "shown ! 9007199254740992 = smp 9007199254740993"
    by (simp add: shown_def nth_append)
  ultimately have "snd (shown ! 9007199254740991) = snd (shown ! 9007199254740992)"
    by (simp only: smp_def snd_step_sample repeated_time)
  then show "\<exists>shown. relaxation_samples binary64 (example_scene binary64) (0, 1, 0)
                 18014398509481984 1 = Inr shown
        \<and> length shown = 18014398509481985
        \<and> snd (shown ! 9007199254740991) = snd (shown ! 9007199254740992)"
    using run len by blast
qed

text \<open>
  Claim C7 says that for the start \<open>(0, 1, 0)\<close>, the end \<open>(0.052, 0, 0.966)\<close>, the duration
  0.3 and the step 0.05 the loop gives six samples, the sixth at \<open>t = 0.30\<close> exactly and
  on the end vector. In the arithmetic of the interpreter it does not: \<open>0.3 / 0.05\<close> evaluates to
  5.999999999999999, \<open>int\<close> truncates it to 5, and the loop of the scene in testing mode
  shows five samples, at 0.05, 0.1, 0.15000000000000002, 0.2 and 0.25. The fifth is not the
  end vector; the end vector is reached only by the final sample.
\<close>

theorem testing_mode_runs_five_steps:
  "\<exists>p1 p2 p3 p4 p5.
     show_relaxation_enhanced binary64 (example_scene binary64) =
       Inr [(p1, 3602879701896397 / 72057594037927936),
            (p2, 3602879701896397 / 36028797018963968),
            (p3, 1351079888211149 / 9007199254740992),
            (p4, 3602879701896397 / 18014398509481984),
            (p5, 1 / 4),
            (equilibrium_end (example_scene binary64), 5404319552844595 / 18014398509481984)]
     \<and> p5 \<noteq> equilibrium_end (example_scene binary64)"
  by (rule testing_mode_run)

text \<open>
  Claim C8. When the total duration is zero, or more generally smaller than a positive
  step, the loop has no iteration and the only sample shown is the final one, on the end
  vector at the total duration. The result is a value and not \<open>ZeroDivisionError\<close>: the
  division by the duration (and those by \<open>T1\<close> and \<open>T2\<close>) is inside the loop and is never
  reached. Stated over the reals.
\<close>

theorem no_steps_when_step_exceeds_duration:
  assumes "0 < stepSize" and "totalDuration < stepSize"
  shows "relaxation_samples exact sc startVector totalDuration stepSize =
           Inr [(equilibrium_end sc, totalDuration)]
       \<and> relaxation_samples exact sc startVector 0 stepSize = Inr [(equilibrium_end sc, 0)]"
proof -
  have small: "nat (py_int (q / stepSize)) = 0" if "q < stepSize" for q
  proof -
    have "q / stepSize < 1" using that assms(1) by simp
    then have "\<lfloor>q / stepSize\<rfloor> \<le> 0" by (simp add: floor_le_iff)
    then show ?thesis by (simp add: nat_py_int)
  qed
  show ?thesis
    using assms small [of totalDuration] small [of 0]
    by (simp add: relaxation_samples_def py_truediv_def exact_def)
qed

theorem no_steps_when_step_exceeds_duration_witness:
  "relaxation_samples exact ((example_scene exact)\<lparr>T1 := 0, T2 := 0\<rparr>) (0, 1, 0) (3 / 100) (1 / 20) =
     Inr [((52 / 1000, 0, 966 / 1000), 3 / 100)]
   \<and> relaxation_samples exact ((example_scene exact)\<lparr>T1 := 0, T2 := 0\<rparr>) (0, 1, 0) 0 (1 / 20) =
     Inr [((52 / 1000, 0, 966 / 1000), 0)]"
  using no_steps_when_step_exceeds_duration
    [of "1 / 20" "3 / 100" "(example_scene exact)\<lparr>T1 := 0, T2 := 0\<rparr>" "(0, 1, 0)"]
  by (simp add: example_scene_exact)


text \<open>
  Claim C10, as amended. In an arithmetic whose rounding keeps the order, for the
  trajectory of the program, from \<open>(0, M0, 0)\<close> with \<open>M0\<close> positive to an end vector
  \<open>(x, 0, z)\<close> with \<open>x\<close> and \<open>z\<close> not negative, all of them numbers of the arithmetic, and
  provided that rounding does not carry the time of the last step of the loop above the
  duration: every position shown is the rounded combination
  \<open>(1 - \<alpha>) * startVector + \<alpha> * endVector\<close> for a fraction \<open>\<alpha>\<close> between 0 and 1, the
  fractions never decrease along the sequence and end with 1, and each coordinate moves
  monotonically from its value in the start vector to its value in the end vector.
\<close>

theorem positions_between_endpoints:
  assumes "monotone_rounding fl" and "0 < totalDuration" and "0 < stepSize"
    and "0 < T1 sc" and "0 < T2 sc"
    and "step_time fl stepSize (loop_steps fl totalDuration stepSize) \<le> totalDuration"
    and "equilibrium_end sc = (x, 0, z)" and "0 \<le> x" and "0 \<le> z" and "fl x = x" and "fl z = z"
    and "0 < m" and "fl m = m"
  shows "\<exists>shown alphas.
           relaxation_samples fl sc (0, m, 0) totalDuration stepSize = Inr shown
         \<and> map fst shown = map (\<lambda>\<alpha>. step_position fl \<alpha> (0, m, 0) (x, 0, z)) alphas
         \<and> sorted alphas
         \<and> list_all (\<lambda>\<alpha>. 0 \<le> \<alpha> \<and> \<alpha> \<le> 1) alphas
         \<and> alphas \<noteq> [] \<and> last alphas = 1
         \<and> moves_monotonically 0 x (map (\<lambda>s. fst (fst s)) shown)
         \<and> moves_monotonically m 0 (map (\<lambda>s. fst (snd (fst s))) shown)
         \<and> moves_monotonically 0 z (map (\<lambda>s. snd (snd (fst s))) shown)"
proof -
  define n where "n = loop_steps fl totalDuration stepSize"
  define shown where
    "shown = map (step_sample fl (0, m, 0) (x, 0, z) totalDuration stepSize) [1..<Suc n]
             @ [((x, 0, z), totalDuration)]"
  define alphas where "alphas = map (step_alpha fl totalDuration stepSize) [1..<Suc n] @ [1]"
  note mono = assms(1)
  note fl0 = monotone_roundingD(2) [OF mono]
  note fl1 = monotone_roundingD(3) [OF mono]
  have dt: "0 \<le> stepSize" using assms(3) by simp
  have run: "relaxation_samples fl sc (0, m, 0) totalDuration stepSize = Inr shown"
    unfolding shown_def n_def assms(7) [symmetric]
    using assms(2-5) by (intro relaxation_samples_value) simp_all
  have pos: "map fst shown = map (\<lambda>\<alpha>. step_position fl \<alpha> (0, m, 0) (x, 0, z)) alphas"
    by (simp add: shown_def alphas_def step_sample_def step_position_end [OF mono assms(10,11)])
  have bound: "0 \<le> step_alpha fl totalDuration stepSize i \<and> step_alpha fl totalDuration stepSize i \<le> 1"
    if "i \<le> n" for i
  proof -
    have "step_time fl stepSize i \<le> step_time fl stepSize n"
      using mono dt that by (rule step_time_mono)
    also have "\<dots> \<le> totalDuration" using assms(6) by (simp only: n_def)
    finally show ?thesis using mono dt assms(2) by (intro step_alpha_bounds)
  qed
  have bounded: "list_all (\<lambda>\<alpha>. 0 \<le> \<alpha> \<and> \<alpha> \<le> 1) alphas"
    using bound by (auto simp: alphas_def list_all_iff)
  have "sorted (map (step_alpha fl totalDuration stepSize) [1..<Suc n])"
    using mono dt assms(2) by (rule step_alphas_sorted)
  moreover have "\<forall>\<alpha> \<in> set (map (step_alpha fl totalDuration stepSize) [1..<Suc n]). \<alpha> \<le> 1"
    using bound by auto
  ultimately have sorted: "sorted alphas"
    by (simp add: alphas_def sorted_append)
  have final: "alphas \<noteq> []" "last alphas = 1" by (simp_all add: alphas_def)
  have mx: "map (\<lambda>s. fst (fst s)) shown = map (\<lambda>\<alpha>. fl (fl (\<alpha> * x))) alphas"
  proof -
    have "map (\<lambda>s. fst (fst s)) shown = map fst (map fst shown)" by simp
    also have "\<dots> = map (\<lambda>\<alpha>. fl (fl (\<alpha> * x))) alphas"
      by (simp only: pos) (simp add: step_position_program [OF mono])
    finally show ?thesis .
  qed
  have my: "map (\<lambda>s. fst (snd (fst s))) shown = map (\<lambda>\<alpha>. fl (fl (fl (1 - \<alpha>) * m))) alphas"
  proof -
    have "map (\<lambda>s. fst (snd (fst s))) shown = map (\<lambda>p. fst (snd p)) (map fst shown)" by simp
    also have "\<dots> = map (\<lambda>\<alpha>. fl (fl (fl (1 - \<alpha>) * m))) alphas"
      by (simp only: pos) (simp add: step_position_program [OF mono])
    finally show ?thesis .
  qed
  have mz: "map (\<lambda>s. snd (snd (fst s))) shown = map (\<lambda>\<alpha>. fl (fl (\<alpha> * z))) alphas"
  proof -
    have "map (\<lambda>s. snd (snd (fst s))) shown = map (\<lambda>p. snd (snd p)) (map fst shown)" by simp
    also have "\<dots> = map (\<lambda>\<alpha>. fl (fl (\<alpha> * z))) alphas"
      by (simp only: pos) (simp add: step_position_program [OF mono])
    finally show ?thesis .
  qed
  have "moves_monotonically 0 x (map (\<lambda>s. fst (fst s)) shown)"
    unfolding mx using sorted bounded
    by (rule moves_monotonically_increasing)
       (simp_all add: rounded_product_mono [OF mono assms(8)] fl0 assms(10))
  moreover have "moves_monotonically m 0 (map (\<lambda>s. fst (snd (fst s))) shown)"
    unfolding my using sorted bounded
    by (rule moves_monotonically_decreasing)
       (use assms(12) in \<open>simp_all add: rounded_complement_antimono [OF mono] fl0 fl1 assms(13)\<close>)
  moreover have "moves_monotonically 0 z (map (\<lambda>s. snd (snd (fst s))) shown)"
    unfolding mz using sorted bounded
    by (rule moves_monotonically_increasing)
       (simp_all add: rounded_product_mono [OF mono assms(9)] fl0 assms(11))
  ultimately show ?thesis using run pos sorted bounded final by blast
qed

theorem positions_between_endpoints_witness:
  "\<exists>shown alphas.
           relaxation_samples binary64 (example_scene binary64) (0, 1, 0)
             (binary64 (3 / 10)) (binary64 (5 / 100)) = Inr shown
         \<and> map fst shown =
             map (\<lambda>\<alpha>. step_position binary64 \<alpha> (0, 1, 0)
                        (7493989779944505 / 144115188075855872, 0, 4350477240039899 / 4503599627370496)) alphas
         \<and> sorted alphas
         \<and> list_all (\<lambda>\<alpha>. 0 \<le> \<alpha> \<and> \<alpha> \<le> 1) alphas
         \<and> alphas \<noteq> [] \<and> last alphas = 1
         \<and> moves_monotonically 0 (7493989779944505 / 144115188075855872) (map (\<lambda>s. fst (fst s)) shown)
         \<and> moves_monotonically 1 0 (map (\<lambda>s. fst (snd (fst s))) shown)
         \<and> moves_monotonically 0 (4350477240039899 / 4503599627370496) (map (\<lambda>s. snd (snd (fst s))) shown)"
proof (rule positions_between_endpoints)
  show "monotone_rounding binary64" by (rule monotone_rounding_binary64)
  show "0 < binary64 (3 / 10)" by (simp only: binary64_3_10)
  show "0 < binary64 (5 / 100)" by (simp only: binary64_5_100)
  show "0 < T1 (example_scene binary64)" "0 < T2 (example_scene binary64)"
    by (simp_all add: example_scene_binary64)
  have "(1 / 4 :: real) \<le> 5404319552844595 / 18014398509481984" by simp
  then show "step_time binary64 (binary64 (5 / 100))
          (loop_steps binary64 (binary64 (3 / 10)) (binary64 (5 / 100))) \<le> binary64 (3 / 10)"
    by (simp only: loop_steps_testing)
       (simp only: step_time_def binary64_5_100 binary64_time_5 binary64_3_10)
  show "equilibrium_end (example_scene binary64) =
      (7493989779944505 / 144115188075855872, 0, 4350477240039899 / 4503599627370496)"
    by (rule example_scene_binary64)
  show "(0::real) \<le> 7493989779944505 / 144115188075855872" by simp
  show "(0::real) \<le> 4350477240039899 / 4503599627370496" by simp
  show "binary64 (7493989779944505 / 144115188075855872) = 7493989779944505 / 144115188075855872"
    by (rule binary64_52_1000_again)
  show "binary64 (4350477240039899 / 4503599627370496) = 4350477240039899 / 4503599627370496"
    by (rule binary64_966_1000_again)
  show "(0::real) < 1" by simp
  show "binary64 1 = 1" by (rule binary64_1)
qed

text \<open>
  Claim C10 as it was stated fails in the arithmetic of the interpreter. For the duration
  0.35 and the step 0.01, from \<open>(0, 1, 0)\<close> to the end vector of the example, the 35th
  step has a fraction above 1, and the second coordinate of its position is negative:
  below both its start value 1 and its end value 0. And without any such excess, in the
  run with the duration 0.3 and the step 0.05, a first coordinate that is 0.49 in both the
  start and the end vector is 0.48999999999999994 in the first position: that position is
  not on the segment, which for this coordinate is the single value 0.49.
\<close>

theorem rounded_positions_leave_segment:
  "(\<exists>shown. relaxation_samples binary64 (example_scene binary64) (0, 1, 0)
                 (binary64 (35 / 100)) (binary64 (1 / 100)) = Inr shown
        \<and> length shown = 36
        \<and> 1 < step_alpha binary64 (binary64 (35 / 100)) (binary64 (1 / 100)) 35
        \<and> fst (shown ! 34) =
            step_position binary64 (step_alpha binary64 (binary64 (35 / 100)) (binary64 (1 / 100)) 35)
              (0, 1, 0) (equilibrium_end (example_scene binary64))
        \<and> fst (snd (fst (shown ! 34))) < 0)
   \<and> (\<exists>shown. relaxation_samples binary64
                 ((example_scene binary64)\<lparr>equilibrium_end := (binary64 (49 / 100), 0, 0)\<rparr>)
                 (binary64 (49 / 100), 1, 0) (binary64 (3 / 10)) (binary64 (5 / 100)) = Inr shown
        \<and> length shown = 6
        \<and> fst (fst (shown ! 0)) < binary64 (49 / 100))"
proof (intro conjI)
  define E where "E = equilibrium_end (example_scene binary64)"
  define smp where
    "smp = step_sample binary64 (0, 1, 0) E (binary64 (35 / 100)) (binary64 (1 / 100))"
  define shown where "shown = map smp [1..<Suc 35] @ [(E, binary64 (35 / 100))]"
  have run: "relaxation_samples binary64 (example_scene binary64) (0, 1, 0)
                 (binary64 (35 / 100)) (binary64 (1 / 100)) = Inr shown"
    unfolding shown_def smp_def E_def
    by (rule overshoot_run) (simp_all add: example_scene_binary64)
  have len: "length shown = 36" by (simp add: shown_def)
  have alpha: "1 < step_alpha binary64 (binary64 (35 / 100)) (binary64 (1 / 100)) 35"
    unfolding overshoot_alpha by simp
  have nth: "shown ! 34 = smp 35" by (simp add: shown_def nth_append)
  have pos: "fst (shown ! 34) =
      step_position binary64 (step_alpha binary64 (binary64 (35 / 100)) (binary64 (1 / 100)) 35)
        (0, 1, 0) E"
    by (simp only: nth smp_def step_sample_def fst_conv)
  have E: "E = (7493989779944505 / 144115188075855872, 0, 4350477240039899 / 4503599627370496)"
    by (simp only: E_def example_scene_binary64)
  have "fst (snd (fst (shown ! 34))) = - (1 / 4503599627370496)"
    by (simp only: pos overshoot_alpha E overshoot_position)
  then have "fst (snd (fst (shown ! 34))) < 0" by simp
  with run len alpha pos
  show "\<exists>shown. relaxation_samples binary64 (example_scene binary64) (0, 1, 0)
                 (binary64 (35 / 100)) (binary64 (1 / 100)) = Inr shown
        \<and> length shown = 36
        \<and> 1 < step_alpha binary64 (binary64 (35 / 100)) (binary64 (1 / 100)) 35
        \<and> fst (shown ! 34) =
            step_position binary64 (step_alpha binary64 (binary64 (35 / 100)) (binary64 (1 / 100)) 35)
              (0, 1, 0) (equilibrium_end (example_scene binary64))
        \<and> fst (snd (fst (shown ! 34))) < 0"
    unfolding E_def by blast
next
  define sc where "sc = (example_scene binary64)\<lparr>equilibrium_end := (binary64 (49 / 100), 0, 0)\<rparr>"
  define smp where
    "smp = step_sample binary64 (binary64 (49 / 100), 1, 0) (binary64 (49 / 100), 0, 0)
             (binary64 (3 / 10)) (binary64 (5 / 100))"
  define shown where "shown = map smp [1, 2, 3, 4, 5] @ [(equilibrium_end sc, binary64 (3 / 10))]"
  have sc: "T1 sc \<noteq> 0" "T2 sc \<noteq> 0" "equilibrium_end sc = (binary64 (49 / 100), 0, 0)"
    by (simp_all add: sc_def example_scene_binary64)
  have nz: "binary64 (3 / 10) \<noteq> 0" "binary64 (5 / 100) \<noteq> 0"
    by (simp_all only: binary64_3_10 binary64_5_100)
  have steps: "[1..<Suc (loop_steps binary64 (binary64 (3 / 10)) (binary64 (5 / 100)))] = [1, 2, 3, 4, 5]"
    by (simp only: loop_steps_testing) (simp add: upt_rec)
  have "relaxation_samples binary64 sc (binary64 (49 / 100), 1, 0)
          (binary64 (3 / 10)) (binary64 (5 / 100)) =
      Inr (map (step_sample binary64 (binary64 (49 / 100), 1, 0) (equilibrium_end sc)
                  (binary64 (3 / 10)) (binary64 (5 / 100)))
             [1..<Suc (loop_steps binary64 (binary64 (3 / 10)) (binary64 (5 / 100)))]
           @ [(equilibrium_end sc, binary64 (3 / 10))])"
    using sc(1,2) nz by (rule relaxation_samples_value)
  then have run: "relaxation_samples binary64 sc (binary64 (49 / 100), 1, 0)
          (binary64 (3 / 10)) (binary64 (5 / 100)) = Inr shown"
    by (simp only: steps shown_def smp_def sc(3))
  have len: "length shown = 6" by (simp add: shown_def)
  have "shown ! 0 = smp 1" by (simp add: shown_def)
  then have "fst (fst (shown ! 0)) = 8827055269646171 / 18014398509481984"
    by (simp only: smp_def first_position_off_segment)
  then have "fst (fst (shown ! 0)) < binary64 (49 / 100)"
    unfolding binary64_49_100 by simp
  with run len
  show "\<exists>shown. relaxation_samples binary64
                 ((example_scene binary64)\<lparr>equilibrium_end := (binary64 (49 / 100), 0, 0)\<rparr>)
                 (binary64 (49 / 100), 1, 0) (binary64 (3 / 10)) (binary64 (5 / 100)) = Inr shown
        \<and> length shown = 6
        \<and> fst (fst (shown ! 0)) < binary64 (49 / 100)"
    unfolding sc_def by blast
qed

end
